theory Spec2Isabelle
  imports Main "HOL-Library.Sublist"
begin

section \<open>Python values used by the scripts\<close>

text \<open>
  The three scripts are Python. Strings are \<open>string\<close>, lists are lists, a dictionary
  with string keys is a map \<open>string \<rightharpoonup> 'v\<close>, and a call that can raise returns a value of
  \<open>exn + 'a\<close> with the exception on the left.
\<close>

datatype exn =
    FileNotFoundError
  | OSError string
  | KeyError string
  | ClientError string

text \<open>\<open>d.get(key, default)\<close>, applied to the result of the lookup \<open>d key\<close>.\<close>

definition get_default :: "'a option \<Rightarrow> 'a \<Rightarrow> 'a" where
  "get_default entry dflt = (case entry of None \<Rightarrow> dflt | Some v \<Rightarrow> v)"

text \<open>A tag as the provider returns it: a dictionary such as \<open>{'Key': k, 'Value': v}\<close>.\<close>

type_synonym tag = "string \<rightharpoonup> string"

section \<open>check_missing_tags\<close>

text \<open>
  \<^verbatim>\<open>
  def check_missing_tags(resource_tags, required_tags):
      if not resource_tags:
          return required_tags
      existing_tags = {tag.get('Key', '') for tag in resource_tags}
      return [tag for tag in required_tags if tag not in existing_tags]
  \<close>
  The function is the same in both scanner scripts.
\<close>

definition check_missing_tags :: "tag list \<Rightarrow> string list \<Rightarrow> string list" where
  "check_missing_tags resource_tags required_tags =
     (if resource_tags = [] then required_tags
      else (let existing_tags = set (map (\<lambda>tag. get_default (tag ''Key'') '''') resource_tags)
            in filter (\<lambda>tag. tag \<notin> existing_tags) required_tags))"

text \<open>The values stored under \<open>'Key'\<close> in a list of tag records.\<close>

definition Key_values :: "tag list \<Rightarrow> string set" where
  "Key_values resource_tags =
     set (concat (map (\<lambda>tag. case tag ''Key'' of None \<Rightarrow> [] | Some k \<Rightarrow> [k]) resource_tags))"

section \<open>Strings\<close>

text \<open>\<open>sep.join(xs)\<close>.\<close>

fun str_join :: "string \<Rightarrow> string list \<Rightarrow> string" where
  "str_join sep [] = []"
| "str_join sep [x] = x"
| "str_join sep (x # y # ys) = x @ sep @ str_join sep (y # ys)"

section \<open>Resource records and the provider\<close>

text \<open>
  The resource dictionaries of the provider's responses, with the entries the scripts read.
  \<open>Tags\<close> is optional in a response (the scripts read it with \<open>.get('Tags', [])\<close>).
\<close>

record ec2_instance =
  InstanceId :: string
  instance_Tags :: "tag list option"

record reservation =
  Instances :: "ec2_instance list"

record volume =
  VolumeId :: string
  volume_Tags :: "tag list option"

record vpc =
  VpcId :: string
  vpc_Tags :: "tag list option"

record security_group =
  GroupId :: string
  sg_Tags :: "tag list option"

record subnet =
  SubnetId :: string
  subnet_Tags :: "tag list option"

record lambda_function =
  FunctionArn :: string
  FunctionName :: string

record db_instance =
  DBInstanceArn :: string
  DBInstanceIdentifier :: string

record bucket =
  Name :: string

text \<open>
  The provider (boto3 and the account behind it), as the scripts use it. Every call can
  raise. Region-scoped calls take the region of the client they are made on; the tag lookups
  take the resource they are made for. \<open>client service region_name\<close> is
  \<open>session.client(service, region_name=...)\<close>, with \<open>None\<close> when no region is given.
  \<open>list_tags\<close> returns the optional \<open>'Tags'\<close> dictionary of the response as its items;
  \<open>list_tags_for_resource\<close> and \<open>get_bucket_tagging\<close> return the optional
  \<open>'TagList'\<close> and \<open>'TagSet'\<close> entries.
\<close>

record provider =
  Session :: "exn + unit"
  client :: "string \<Rightarrow> string option \<Rightarrow> exn + unit"
  describe_instances :: "string \<Rightarrow> exn + reservation list"
  describe_volumes :: "string \<Rightarrow> exn + volume list"
  describe_vpcs :: "string \<Rightarrow> exn + vpc list"
  describe_security_groups :: "string \<Rightarrow> exn + security_group list"
  describe_subnets :: "string \<Rightarrow> exn + subnet list"
  list_functions :: "string \<Rightarrow> exn + lambda_function list"
  list_tags :: "string \<Rightarrow> string \<Rightarrow> exn + (string \<times> string) list option"
  describe_db_instances :: "string \<Rightarrow> exn + db_instance list"
  list_tags_for_resource :: "string \<Rightarrow> string \<Rightarrow> exn + tag list option"
  get_caller_identity :: "exn + string"
  describe_regions :: "exn + string list"
  list_buckets :: "exn + bucket list"
  get_bucket_tagging :: "string \<Rightarrow> exn + tag list option"

section \<open>Findings\<close>

text \<open>
  The dictionary the spreadsheet scanner appends for a resource:
  \<open>{'Account': .., 'Region': .., 'Resource': .., 'ARN': .., 'Missing_Tags': ', '.join(..)}\<close>.
\<close>

record finding =
  Account :: string
  Region :: string
  Resource :: string
  ARN :: string
  Missing_Tags :: string

section \<open>The spreadsheet scanner: one region\<close>

text \<open>
  \<open>specific_tags_are_not_set_aws_resources_per_region_excel.py\<close>. Each loop of
  \<open>get_resources_missing_tags_in_region\<close> is a function that takes the list \<open>resources\<close>
  accumulated so far and returns it with the loop's appends. \<open>if missing:\<close> is the test
  \<open>missing \<noteq> []\<close>.
\<close>

fun scan_instances ::
  "string \<Rightarrow> string \<Rightarrow> string list \<Rightarrow> ec2_instance list \<Rightarrow> finding list \<Rightarrow> finding list" where
  "scan_instances region account_id required_tags [] resources = resources"
| "scan_instances region account_id required_tags (instance # rest) resources =
     (let missing = check_missing_tags (get_default (instance_Tags instance) []) required_tags
      in scan_instances region account_id required_tags rest
           (if missing \<noteq> [] then
              resources @ [\<lparr>Account = account_id, Region = region, Resource = ''EC2 Instance'',
                ARN = ''arn:aws:ec2:'' @ region @ '':'' @ account_id @ '':instance/''
                      @ InstanceId instance,
                Missing_Tags = str_join '', '' missing\<rparr>]
            else resources))"

fun scan_reservations ::
  "string \<Rightarrow> string \<Rightarrow> string list \<Rightarrow> reservation list \<Rightarrow> finding list \<Rightarrow> finding list" where
  "scan_reservations region account_id required_tags [] resources = resources"
| "scan_reservations region account_id required_tags (reservation # rest) resources =
     scan_reservations region account_id required_tags rest
       (scan_instances region account_id required_tags (Instances reservation) resources)"

fun scan_volumes ::
  "string \<Rightarrow> string \<Rightarrow> string list \<Rightarrow> volume list \<Rightarrow> finding list \<Rightarrow> finding list" where
  "scan_volumes region account_id required_tags [] resources = resources"
| "scan_volumes region account_id required_tags (volume # rest) resources =
     (let missing = check_missing_tags (get_default (volume_Tags volume) []) required_tags
      in scan_volumes region account_id required_tags rest
           (if missing \<noteq> [] then
              resources @ [\<lparr>Account = account_id, Region = region, Resource = ''EBS Volume'',
                ARN = ''arn:aws:ec2:'' @ region @ '':'' @ account_id @ '':volume/''
                      @ VolumeId volume,
                Missing_Tags = str_join '', '' missing\<rparr>]
            else resources))"

fun scan_vpcs ::
  "string \<Rightarrow> string \<Rightarrow> string list \<Rightarrow> vpc list \<Rightarrow> finding list \<Rightarrow> finding list" where
  "scan_vpcs region account_id required_tags [] resources = resources"
| "scan_vpcs region account_id required_tags (vpc # rest) resources =
     (let missing = check_missing_tags (get_default (vpc_Tags vpc) []) required_tags
      in scan_vpcs region account_id required_tags rest
           (if missing \<noteq> [] then
              resources @ [\<lparr>Account = account_id, Region = region, Resource = ''VPC'',
                ARN = ''arn:aws:ec2:'' @ region @ '':'' @ account_id @ '':vpc/'' @ VpcId vpc,
                Missing_Tags = str_join '', '' missing\<rparr>]
            else resources))"

fun scan_security_groups ::
  "string \<Rightarrow> string \<Rightarrow> string list \<Rightarrow> security_group list \<Rightarrow> finding list \<Rightarrow> finding list" where
  "scan_security_groups region account_id required_tags [] resources = resources"
| "scan_security_groups region account_id required_tags (sg # rest) resources =
     (let missing = check_missing_tags (get_default (sg_Tags sg) []) required_tags
      in scan_security_groups region account_id required_tags rest
           (if missing \<noteq> [] then
              resources @ [\<lparr>Account = account_id, Region = region, Resource = ''Security Group'',
                ARN = ''arn:aws:ec2:'' @ region @ '':'' @ account_id @ '':security-group/''
                      @ GroupId sg,
                Missing_Tags = str_join '', '' missing\<rparr>]
            else resources))"

fun scan_subnets ::
  "string \<Rightarrow> string \<Rightarrow> string list \<Rightarrow> subnet list \<Rightarrow> finding list \<Rightarrow> finding list" where
  "scan_subnets region account_id required_tags [] resources = resources"
| "scan_subnets region account_id required_tags (subnet # rest) resources =
     (let missing = check_missing_tags (get_default (subnet_Tags subnet) []) required_tags
      in scan_subnets region account_id required_tags rest
           (if missing \<noteq> [] then
              resources @ [\<lparr>Account = account_id, Region = region, Resource = ''Subnet'',
                ARN = ''arn:aws:ec2:'' @ region @ '':'' @ account_id @ '':subnet/''
                      @ SubnetId subnet,
                Missing_Tags = str_join '', '' missing\<rparr>]
            else resources))"

text \<open>
  The Lambda and RDS loops have a \<open>try\<close> around the tag lookup. Its bare \<open>except:\<close>
  appends a finding with all the required tags.
\<close>

fun scan_functions ::
  "provider \<Rightarrow> string \<Rightarrow> string \<Rightarrow> string list \<Rightarrow> lambda_function list
     \<Rightarrow> finding list \<Rightarrow> finding list" where
  "scan_functions aws region account_id required_tags [] resources = resources"
| "scan_functions aws region account_id required_tags (function # rest) resources =
     scan_functions aws region account_id required_tags rest
       (case list_tags aws region (FunctionArn function) of
          Inr tags_response \<Rightarrow>
            (let tags = map (\<lambda>(k, v). [''Key'' \<mapsto> k, ''Value'' \<mapsto> v])
                          (get_default tags_response []);
                 missing = check_missing_tags tags required_tags
             in if missing \<noteq> [] then
                  resources @ [\<lparr>Account = account_id, Region = region,
                    Resource = ''Lambda Function'', ARN = FunctionArn function,
                    Missing_Tags = str_join '', '' missing\<rparr>]
                else resources)
        | Inl e \<Rightarrow>
            resources @ [\<lparr>Account = account_id, Region = region,
              Resource = ''Lambda Function'', ARN = FunctionArn function,
              Missing_Tags = str_join '', '' required_tags\<rparr>])"

fun scan_db_instances ::
  "provider \<Rightarrow> string \<Rightarrow> string \<Rightarrow> string list \<Rightarrow> db_instance list
     \<Rightarrow> finding list \<Rightarrow> finding list" where
  "scan_db_instances aws region account_id required_tags [] resources = resources"
| "scan_db_instances aws region account_id required_tags (instance # rest) resources =
     scan_db_instances aws region account_id required_tags rest
       (case list_tags_for_resource aws region (DBInstanceArn instance) of
          Inr tags_response \<Rightarrow>
            (let missing = check_missing_tags (get_default tags_response []) required_tags
             in if missing \<noteq> [] then
                  resources @ [\<lparr>Account = account_id, Region = region,
                    Resource = ''RDS Instance'', ARN = DBInstanceArn instance,
                    Missing_Tags = str_join '', '' missing\<rparr>]
                else resources)
        | Inl e \<Rightarrow>
            resources @ [\<lparr>Account = account_id, Region = region,
              Resource = ''RDS Instance'', ARN = DBInstanceArn instance,
              Missing_Tags = str_join '', '' required_tags\<rparr>])"

text \<open>
  The body of \<open>get_resources_missing_tags_in_region\<close> is one \<open>try\<close> whose
  \<open>except: pass\<close> is followed by \<open>return resources\<close>: a call that raises ends the scan
  with the list as it is at that point.
\<close>

definition get_resources_missing_tags_in_region ::
  "provider \<Rightarrow> string \<Rightarrow> string \<Rightarrow> string list \<Rightarrow> finding list" where
  "get_resources_missing_tags_in_region aws region account_id required_tags =
     (let resources = [] in
      (case Session aws of Inl e \<Rightarrow> resources | Inr session \<Rightarrow>
      (case client aws ''ec2'' (Some region) of Inl e \<Rightarrow> resources | Inr ec2 \<Rightarrow>
      (case describe_instances aws region of Inl e \<Rightarrow> resources | Inr instances \<Rightarrow>
      (let resources = scan_reservations region account_id required_tags instances resources in
      (case describe_volumes aws region of Inl e \<Rightarrow> resources | Inr volumes \<Rightarrow>
      (let resources = scan_volumes region account_id required_tags volumes resources in
      (case describe_vpcs aws region of Inl e \<Rightarrow> resources | Inr vpcs \<Rightarrow>
      (let resources = scan_vpcs region account_id required_tags vpcs resources in
      (case describe_security_groups aws region of Inl e \<Rightarrow> resources | Inr security_groups \<Rightarrow>
      (let resources = scan_security_groups region account_id required_tags security_groups resources in
      (case describe_subnets aws region of Inl e \<Rightarrow> resources | Inr subnets \<Rightarrow>
      (let resources = scan_subnets region account_id required_tags subnets resources in
      (case client aws ''lambda'' (Some region) of Inl e \<Rightarrow> resources | Inr lambda_client \<Rightarrow>
      (case list_functions aws region of Inl e \<Rightarrow> resources | Inr functions \<Rightarrow>
      (let resources = scan_functions aws region account_id required_tags functions resources in
      (case client aws ''rds'' (Some region) of Inl e \<Rightarrow> resources | Inr rds \<Rightarrow>
      (case describe_db_instances aws region of Inl e \<Rightarrow> resources | Inr instances \<Rightarrow>
       scan_db_instances aws region account_id required_tags instances resources
      ))))))))))))))))))"

section \<open>load_required_tags\<close>

text \<open>
  \<open>str.strip()\<close> removes leading and trailing whitespace. Strings are taken as ASCII text;
  the ASCII characters Python counts as whitespace are the codes 9 to 13 and 28 to 32.
\<close>

definition isspace :: "char \<Rightarrow> bool" where
  "isspace c = (let n = (of_char c :: nat) in (9 \<le> n \<and> n \<le> 13) \<or> (28 \<le> n \<and> n \<le> 32))"

definition strip :: "string \<Rightarrow> string" where
  "strip s = rev (dropWhile isspace (rev (dropWhile isspace s)))"

text \<open>
  \<^verbatim>\<open>
  def load_required_tags():
      try:
          with open('required_tags.txt', 'r') as f:
              return [line.strip() for line in f if line.strip()]
      except FileNotFoundError:
          return ['Environment', 'Owner', 'Project']  # Default tags
  \<close>
  The argument is what opening and reading \<open>required_tags.txt\<close> gives: the lines of the
  file, or the exception raised. Only \<open>FileNotFoundError\<close> is caught. The function is the
  same in both scanner scripts.
\<close>

definition load_required_tags :: "exn + string list \<Rightarrow> exn + string list" where
  "load_required_tags required_tags_txt =
     (case required_tags_txt of
        Inr f \<Rightarrow> Inr (map strip (filter (\<lambda>line. strip line \<noteq> []) f))
      | Inl FileNotFoundError \<Rightarrow> Inr [''Environment'', ''Owner'', ''Project'']
      | Inl e \<Rightarrow> Inl e)"

section \<open>The spreadsheet scanner: main\<close>

text \<open>
  The comprehension \<open>[{'Key': tag['Key'], 'Value': tag['Value']} for tag in ...]\<close> of the
  bucket loop: a tag without one of the two entries raises \<open>KeyError\<close>.
\<close>

fun copy_tags :: "tag list \<Rightarrow> exn + tag list" where
  "copy_tags [] = Inr []"
| "copy_tags (tag # rest) =
     (case tag ''Key'' of None \<Rightarrow> Inl (KeyError ''Key'') | Some k \<Rightarrow>
     (case tag ''Value'' of None \<Rightarrow> Inl (KeyError ''Value'') | Some v \<Rightarrow>
     (case copy_tags rest of Inl e \<Rightarrow> Inl e
      | Inr tags \<Rightarrow> Inr ([''Key'' \<mapsto> k, ''Value'' \<mapsto> v] # tags))))"

text \<open>The bucket loop; everything in its \<open>try\<close> that raises ends in the \<open>except:\<close> branch.\<close>

fun scan_buckets ::
  "provider \<Rightarrow> string \<Rightarrow> string list \<Rightarrow> bucket list \<Rightarrow> finding list \<Rightarrow> finding list" where
  "scan_buckets aws account_id required_tags [] all_resources = all_resources"
| "scan_buckets aws account_id required_tags (bucket # rest) all_resources =
     scan_buckets aws account_id required_tags rest
       (case (case get_bucket_tagging aws (Name bucket) of Inl e \<Rightarrow> Inl e
              | Inr tags_response \<Rightarrow> copy_tags (get_default tags_response [])) of
          Inr tags \<Rightarrow>
            (let missing = check_missing_tags tags required_tags
             in if missing \<noteq> [] then
                  all_resources @ [\<lparr>Account = account_id, Region = ''Global'',
                    Resource = ''S3 Bucket'', ARN = ''arn:aws:s3:::'' @ Name bucket,
                    Missing_Tags = str_join '', '' missing\<rparr>]
                else all_resources)
        | Inl e \<Rightarrow>
            all_resources @ [\<lparr>Account = account_id, Region = ''Global'',
              Resource = ''S3 Bucket'', ARN = ''arn:aws:s3:::'' @ Name bucket,
              Missing_Tags = str_join '', '' required_tags\<rparr>])"

text \<open>The section \<open># S3 Buckets (global)\<close> of \<open>main\<close>, with its outer \<open>except: pass\<close>.\<close>

definition scan_s3 :: "provider \<Rightarrow> string \<Rightarrow> string list \<Rightarrow> finding list \<Rightarrow> finding list" where
  "scan_s3 aws account_id required_tags all_resources =
     (case client aws ''s3'' None of Inl e \<Rightarrow> all_resources | Inr s3 \<Rightarrow>
     (case list_buckets aws of Inl e \<Rightarrow> all_resources | Inr buckets \<Rightarrow>
        scan_buckets aws account_id required_tags buckets all_resources))"

text \<open>
  \<open>main\<close> up to the export: the value of \<open>all_resources\<close> when the CSV file is written,
  or the exception that ends \<open>main\<close> (nothing before the region scans is in a \<open>try\<close>).
  The region scans run on a thread pool and \<open>as_completed\<close> yields them in the order they
  finish; that order is the parameter \<open>as_completed\<close>, which returns the regions in
  completion order. A region scan never raises, so \<open>future.result()\<close> does not either.
\<close>

definition main_all_resources ::
  "provider \<Rightarrow> exn + string list \<Rightarrow> (string list \<Rightarrow> string list) \<Rightarrow> exn + finding list" where
  "main_all_resources aws required_tags_txt as_completed =
     (case load_required_tags required_tags_txt of Inl e \<Rightarrow> Inl e | Inr required_tags \<Rightarrow>
     (case Session aws of Inl e \<Rightarrow> Inl e | Inr session \<Rightarrow>
     (case client aws ''sts'' None of Inl e \<Rightarrow> Inl e | Inr sts \<Rightarrow>
     (case get_caller_identity aws of Inl e \<Rightarrow> Inl e | Inr account_id \<Rightarrow>
     (case client aws ''ec2'' None of Inl e \<Rightarrow> Inl e | Inr ec2 \<Rightarrow>
     (case describe_regions aws of Inl e \<Rightarrow> Inl e | Inr regions \<Rightarrow>
     (let all_resources =
            foldl (\<lambda>all_resources region. all_resources
                     @ get_resources_missing_tags_in_region aws region account_id required_tags)
              [] (as_completed regions)
      in Inr (scan_s3 aws account_id required_tags all_resources))))))))"

text \<open>
  The export. \<open>csv.DictWriter\<close> writes the header row and one row per finding, the cells in
  the order of \<open>fieldnames\<close>. The file is modelled as its table of cells (a list of rows);
  the quoting the \<open>csv\<close> module applies on writing and undoes on reading is not modelled.
  With no finding, no file is written.
\<close>

definition fieldnames :: "string list" where
  "fieldnames = [''Account'', ''Region'', ''Resource'', ''ARN'', ''Missing_Tags'']"

definition writerow :: "finding \<Rightarrow> string list" where
  "writerow r = [Account r, Region r, Resource r, ARN r, Missing_Tags r]"

definition export_csv :: "finding list \<Rightarrow> string list list option" where
  "export_csv all_resources =
     (if all_resources \<noteq> [] then Some (fieldnames # map writerow all_resources) else None)"

definition main ::
  "provider \<Rightarrow> exn + string list \<Rightarrow> (string list \<Rightarrow> string list) \<Rightarrow> exn + string list list option" where
  "main aws required_tags_txt as_completed =
     (case main_all_resources aws required_tags_txt as_completed of Inl e \<Rightarrow> Inl e
      | Inr all_resources \<Rightarrow> Inr (export_csv all_resources))"

section \<open>The console scanner: one region\<close>

text \<open>
  \<open>specific_tags_are_not_set_aws_resources_per_region.py\<close>. Its
  \<open>get_resources_missing_tags_in_region\<close> (here with the suffix \<open>_lines\<close>) appends one
  line of text per resource, scans the kinds in another order, and returns the region with
  the lines. It has the same single \<open>try\<close> and \<open>except: pass\<close>.
\<close>

definition report_line :: "string \<Rightarrow> string \<Rightarrow> string list \<Rightarrow> string" where
  "report_line kind ident missing = kind @ '': '' @ ident @ '' (missing: '' @ str_join '', '' missing @ '')''"

fun scan_instances_lines :: "string list \<Rightarrow> ec2_instance list \<Rightarrow> string list \<Rightarrow> string list" where
  "scan_instances_lines required_tags [] missing_tags_resources = missing_tags_resources"
| "scan_instances_lines required_tags (instance # rest) missing_tags_resources =
     (let missing = check_missing_tags (get_default (instance_Tags instance) []) required_tags
      in scan_instances_lines required_tags rest
           (if missing \<noteq> [] then
              missing_tags_resources @ [report_line ''EC2 Instance'' (InstanceId instance) missing]
            else missing_tags_resources))"

fun scan_reservations_lines :: "string list \<Rightarrow> reservation list \<Rightarrow> string list \<Rightarrow> string list" where
  "scan_reservations_lines required_tags [] missing_tags_resources = missing_tags_resources"
| "scan_reservations_lines required_tags (reservation # rest) missing_tags_resources =
     scan_reservations_lines required_tags rest
       (scan_instances_lines required_tags (Instances reservation) missing_tags_resources)"

fun scan_volumes_lines :: "string list \<Rightarrow> volume list \<Rightarrow> string list \<Rightarrow> string list" where
  "scan_volumes_lines required_tags [] missing_tags_resources = missing_tags_resources"
| "scan_volumes_lines required_tags (volume # rest) missing_tags_resources =
     (let missing = check_missing_tags (get_default (volume_Tags volume) []) required_tags
      in scan_volumes_lines required_tags rest
           (if missing \<noteq> [] then
              missing_tags_resources @ [report_line ''EBS Volume'' (VolumeId volume) missing]
            else missing_tags_resources))"

fun scan_functions_lines ::
  "provider \<Rightarrow> string \<Rightarrow> string list \<Rightarrow> lambda_function list \<Rightarrow> string list \<Rightarrow> string list" where
  "scan_functions_lines aws region required_tags [] missing_tags_resources = missing_tags_resources"
| "scan_functions_lines aws region required_tags (function # rest) missing_tags_resources =
     scan_functions_lines aws region required_tags rest
       (case list_tags aws region (FunctionArn function) of
          Inr tags_response \<Rightarrow>
            (let tags = map (\<lambda>(k, v). [''Key'' \<mapsto> k, ''Value'' \<mapsto> v])
                          (get_default tags_response []);
                 missing = check_missing_tags tags required_tags
             in if missing \<noteq> [] then
                  missing_tags_resources
                    @ [report_line ''Lambda Function'' (FunctionName function) missing]
                else missing_tags_resources)
        | Inl e \<Rightarrow>
            missing_tags_resources
              @ [report_line ''Lambda Function'' (FunctionName function) required_tags])"

fun scan_db_instances_lines ::
  "provider \<Rightarrow> string \<Rightarrow> string list \<Rightarrow> db_instance list \<Rightarrow> string list \<Rightarrow> string list" where
  "scan_db_instances_lines aws region required_tags [] missing_tags_resources = missing_tags_resources"
| "scan_db_instances_lines aws region required_tags (instance # rest) missing_tags_resources =
     scan_db_instances_lines aws region required_tags rest
       (case list_tags_for_resource aws region (DBInstanceArn instance) of
          Inr tags_response \<Rightarrow>
            (let missing = check_missing_tags (get_default tags_response []) required_tags
             in if missing \<noteq> [] then
                  missing_tags_resources
                    @ [report_line ''RDS Instance'' (DBInstanceIdentifier instance) missing]
                else missing_tags_resources)
        | Inl e \<Rightarrow>
            missing_tags_resources
              @ [report_line ''RDS Instance'' (DBInstanceIdentifier instance) required_tags])"

fun scan_vpcs_lines :: "string list \<Rightarrow> vpc list \<Rightarrow> string list \<Rightarrow> string list" where
  "scan_vpcs_lines required_tags [] missing_tags_resources = missing_tags_resources"
| "scan_vpcs_lines required_tags (vpc # rest) missing_tags_resources =
     (let missing = check_missing_tags (get_default (vpc_Tags vpc) []) required_tags
      in scan_vpcs_lines required_tags rest
           (if missing \<noteq> [] then
              missing_tags_resources @ [report_line ''VPC'' (VpcId vpc) missing]
            else missing_tags_resources))"

fun scan_security_groups_lines :: "string list \<Rightarrow> security_group list \<Rightarrow> string list \<Rightarrow> string list" where
  "scan_security_groups_lines required_tags [] missing_tags_resources = missing_tags_resources"
| "scan_security_groups_lines required_tags (sg # rest) missing_tags_resources =
     (let missing = check_missing_tags (get_default (sg_Tags sg) []) required_tags
      in scan_security_groups_lines required_tags rest
           (if missing \<noteq> [] then
              missing_tags_resources @ [report_line ''Security Group'' (GroupId sg) missing]
            else missing_tags_resources))"

fun scan_subnets_lines :: "string list \<Rightarrow> subnet list \<Rightarrow> string list \<Rightarrow> string list" where
  "scan_subnets_lines required_tags [] missing_tags_resources = missing_tags_resources"
| "scan_subnets_lines required_tags (subnet # rest) missing_tags_resources =
     (let missing = check_missing_tags (get_default (subnet_Tags subnet) []) required_tags
      in scan_subnets_lines required_tags rest
           (if missing \<noteq> [] then
              missing_tags_resources @ [report_line ''Subnet'' (SubnetId subnet) missing]
            else missing_tags_resources))"

definition get_resources_missing_tags_in_region_lines ::
  "provider \<Rightarrow> string \<Rightarrow> string list \<Rightarrow> string \<times> string list" where
  "get_resources_missing_tags_in_region_lines aws region required_tags =
     (region,
      (let missing_tags_resources = [] in
      (case Session aws of Inl e \<Rightarrow> missing_tags_resources | Inr session \<Rightarrow>
      (case client aws ''ec2'' (Some region) of Inl e \<Rightarrow> missing_tags_resources | Inr ec2 \<Rightarrow>
      (case describe_instances aws region of Inl e \<Rightarrow> missing_tags_resources | Inr instances \<Rightarrow>
      (let missing_tags_resources = scan_reservations_lines required_tags instances missing_tags_resources in
      (case describe_volumes aws region of Inl e \<Rightarrow> missing_tags_resources | Inr volumes \<Rightarrow>
      (let missing_tags_resources = scan_volumes_lines required_tags volumes missing_tags_resources in
      (case client aws ''lambda'' (Some region) of Inl e \<Rightarrow> missing_tags_resources | Inr lambda_client \<Rightarrow>
      (case list_functions aws region of Inl e \<Rightarrow> missing_tags_resources | Inr functions \<Rightarrow>
      (let missing_tags_resources = scan_functions_lines aws region required_tags functions missing_tags_resources in
      (case client aws ''rds'' (Some region) of Inl e \<Rightarrow> missing_tags_resources | Inr rds \<Rightarrow>
      (case describe_db_instances aws region of Inl e \<Rightarrow> missing_tags_resources | Inr instances \<Rightarrow>
      (let missing_tags_resources = scan_db_instances_lines aws region required_tags instances missing_tags_resources in
      (case describe_vpcs aws region of Inl e \<Rightarrow> missing_tags_resources | Inr vpcs \<Rightarrow>
      (let missing_tags_resources = scan_vpcs_lines required_tags vpcs missing_tags_resources in
      (case describe_security_groups aws region of Inl e \<Rightarrow> missing_tags_resources | Inr security_groups \<Rightarrow>
      (let missing_tags_resources = scan_security_groups_lines required_tags security_groups missing_tags_resources in
      (case describe_subnets aws region of Inl e \<Rightarrow> missing_tags_resources | Inr subnets \<Rightarrow>
       scan_subnets_lines required_tags subnets missing_tags_resources
      )))))))))))))))))))"

section \<open>The analysis script\<close>

text \<open>
  \<open>specific_tags_are_not_set_aws_resources_advanced_analysis.py\<close>.
  \<open>csv.DictReader\<close> takes the first row as the field names and makes a dictionary of every
  later row that is not empty; a repeated field name keeps the last cell. Rows are taken to
  have as many cells as the header (the entries \<open>DictReader\<close> adds for shorter and longer
  rows are not modelled).
\<close>

definition DictReader :: "string list list \<Rightarrow> (string \<rightharpoonup> string) list" where
  "DictReader csvfile =
     (case csvfile of [] \<Rightarrow> []
      | header # rows \<Rightarrow>
          map (\<lambda>row. map_of (rev (zip header row))) (filter (\<lambda>row. row \<noteq> []) rows))"

text \<open>
  \<open>collections.Counter(iterable)\<close> as its items in insertion order: an element seen for the
  first time is added at the end with count 1, an element seen again has its count raised
  where it stands.
\<close>

fun counter_add :: "('a \<times> nat) list \<Rightarrow> 'a \<Rightarrow> ('a \<times> nat) list" where
  "counter_add [] elem = [(elem, 1)]"
| "counter_add ((k, n) # items) elem =
     (if k = elem then (k, n + 1) # items else (k, n) # counter_add items elem)"

definition Counter :: "'a list \<Rightarrow> ('a \<times> nat) list" where
  "Counter iterable = foldl counter_add [] iterable"

text \<open>
  \<open>Counter.most_common()\<close> is \<open>sorted(self.items(), key=itemgetter(1), reverse=True)\<close>:
  a stable sort by falling count. \<open>sort_key\<close> is a stable sort by rising key, so the key
  is the negated count.
\<close>

definition most_common :: "('a \<times> nat) list \<Rightarrow> ('a \<times> nat) list" where
  "most_common items = sort_key (\<lambda>item. - int (snd item)) items"

text \<open>\<open>[row[key] for row in resources]\<close>; a row without the key raises \<open>KeyError\<close>.\<close>

fun column :: "string \<Rightarrow> (string \<rightharpoonup> string) list \<Rightarrow> exn + string list" where
  "column key [] = Inr []"
| "column key (row # rest) =
     (case row key of None \<Rightarrow> Inl (KeyError key) | Some v \<Rightarrow>
     (case column key rest of Inl e \<Rightarrow> Inl e | Inr vs \<Rightarrow> Inr (v # vs)))"

text \<open>
  The part of \<open>analyze_csv\<close> up to the table printed under \<open>Resources by type:\<close>. The
  argument is the table of the file, or the exception raised on opening it. The result is
  the list of \<open>(resource_type, count)\<close> pairs in the order the loop over
  \<open>resource_counts.most_common()\<close> prints them, or \<open>None\<close> when the function returns before
  (file not found, or no data).
\<close>

definition analyze_csv_resource_counts ::
  "exn + string list list \<Rightarrow> exn + (string \<times> nat) list option" where
  "analyze_csv_resource_counts csvfile =
     (case csvfile of
        Inl FileNotFoundError \<Rightarrow> Inr None
      | Inl e \<Rightarrow> Inl e
      | Inr table \<Rightarrow>
          (let resources = DictReader table in
           if resources = [] then Inr None
           else (case column ''Resource'' resources of Inl e \<Rightarrow> Inl e
                 | Inr types \<Rightarrow> Inr (Some (most_common (Counter types))))))"

text \<open>
  \<open>s.split(sep)\<close> for a separator that is not empty, as it is at every call of the script:
  the pieces between the occurrences of \<open>sep\<close>, found from the left. \<open>piece\<close> is the part
  of the current piece already read.
\<close>

function str_split_from :: "string \<Rightarrow> string \<Rightarrow> string \<Rightarrow> string list" where
  "str_split_from sep piece [] = [piece]"
| "str_split_from sep piece (c # s) =
     (if sep \<noteq> [] \<and> prefix sep (c # s)
      then piece # str_split_from sep [] (drop (length sep) (c # s))
      else str_split_from sep (piece @ [c]) s)"
  by pat_completeness auto
termination
  by (relation "measure (\<lambda>(sep, piece, s). length s)") auto

definition str_split :: "string \<Rightarrow> string \<Rightarrow> string list" where
  "str_split sep s = str_split_from sep [] s"

text \<open>
  The parse of a \<open>Missing_Tags\<close> cell in \<open>analyze_csv\<close>:
  \<open>[tag.strip() for tag in row['Missing_Tags'].split(',')]\<close>.
\<close>

definition parse_missing_tags :: "string \<Rightarrow> string list" where
  "parse_missing_tags cell = map strip (str_split '','' cell)"

text \<open>The parse the specification describes: splitting the cell on a comma and a space.\<close>

definition spec_split_missing_tags :: "string \<Rightarrow> string list" where
  "spec_split_missing_tags cell = str_split '', '' cell"

text \<open>The position at which an element first appears in a list.\<close>

definition first_seen :: "'a list \<Rightarrow> 'a \<Rightarrow> nat" where
  "first_seen xs k = length (takeWhile (\<lambda>x. x \<noteq> k) xs)"

text \<open>
  The order of a frequency table: an item stands before another when its count is larger,
  or the counts are equal and its key was seen first (\<open>pos\<close> is the position at which a
  key was first seen).
\<close>

definition larger_count_first :: "('a \<Rightarrow> nat) \<Rightarrow> 'a \<times> nat \<Rightarrow> 'a \<times> nat \<Rightarrow> bool" where
  "larger_count_first pos a b = (snd b < snd a \<or> (snd a = snd b \<and> pos (fst a) < pos (fst b)))"

section \<open>The region scan as a sequence of calls\<close>

text \<open>
  Two other views of the \<open>try\<close> block of a region scan, used to state its behaviour under
  failures; both are proved equal to the functions above. The first lists the provider calls
  of the block in the order they are made: a call that raises is \<open>Inl\<close>, a call that returns
  is \<open>Inr\<close> with the loop that then runs on its response (the identity for the calls that
  only create a session or a client). \<open>run_calls\<close> runs such a list from a given value of
  the accumulated list and stops at the first call that raises.
\<close>

fun run_calls :: "(exn + ('s \<Rightarrow> 's)) list \<Rightarrow> 's \<Rightarrow> 's" where
  "run_calls [] resources = resources"
| "run_calls (Inl e # later) resources = resources"
| "run_calls (Inr loop # later) resources = run_calls later (loop resources)"

definition region_calls ::
  "provider \<Rightarrow> string \<Rightarrow> string \<Rightarrow> string list \<Rightarrow> (exn + (finding list \<Rightarrow> finding list)) list" where
  "region_calls aws region account_id required_tags =
     [map_sum id (\<lambda>session. id) (Session aws),
      map_sum id (\<lambda>ec2. id) (client aws ''ec2'' (Some region)),
      map_sum id (scan_reservations region account_id required_tags) (describe_instances aws region),
      map_sum id (scan_volumes region account_id required_tags) (describe_volumes aws region),
      map_sum id (scan_vpcs region account_id required_tags) (describe_vpcs aws region),
      map_sum id (scan_security_groups region account_id required_tags)
        (describe_security_groups aws region),
      map_sum id (scan_subnets region account_id required_tags) (describe_subnets aws region),
      map_sum id (\<lambda>lambda_client. id) (client aws ''lambda'' (Some region)),
      map_sum id (scan_functions aws region account_id required_tags) (list_functions aws region),
      map_sum id (\<lambda>rds. id) (client aws ''rds'' (Some region)),
      map_sum id (scan_db_instances aws region account_id required_tags)
        (describe_db_instances aws region)]"

text \<open>
  The second view is by resource kind, in the order of the block: for each kind, the
  exception of the call that lists it (or that creates the client it is listed on), or the
  findings its loop appends.
\<close>

definition kind_scans ::
  "provider \<Rightarrow> string \<Rightarrow> string \<Rightarrow> string list \<Rightarrow> (string \<times> (exn + finding list)) list" where
  "kind_scans aws region account_id required_tags =
     [(''EC2 Instance'',
         (case Session aws of Inl e \<Rightarrow> Inl e | Inr session \<Rightarrow>
         (case client aws ''ec2'' (Some region) of Inl e \<Rightarrow> Inl e | Inr ec2 \<Rightarrow>
            map_sum id (\<lambda>instances. scan_reservations region account_id required_tags instances [])
              (describe_instances aws region)))),
      (''EBS Volume'',
         map_sum id (\<lambda>volumes. scan_volumes region account_id required_tags volumes [])
           (describe_volumes aws region)),
      (''VPC'',
         map_sum id (\<lambda>vpcs. scan_vpcs region account_id required_tags vpcs [])
           (describe_vpcs aws region)),
      (''Security Group'',
         map_sum id (\<lambda>sgs. scan_security_groups region account_id required_tags sgs [])
           (describe_security_groups aws region)),
      (''Subnet'',
         map_sum id (\<lambda>subnets. scan_subnets region account_id required_tags subnets [])
           (describe_subnets aws region)),
      (''Lambda Function'',
         (case client aws ''lambda'' (Some region) of Inl e \<Rightarrow> Inl e | Inr lambda_client \<Rightarrow>
            map_sum id (\<lambda>fs. scan_functions aws region account_id required_tags fs [])
              (list_functions aws region))),
      (''RDS Instance'',
         (case client aws ''rds'' (Some region) of Inl e \<Rightarrow> Inl e | Inr rds \<Rightarrow>
            map_sum id (\<lambda>instances. scan_db_instances aws region account_id required_tags instances [])
              (describe_db_instances aws region)))]"

text \<open>The findings of the kinds before the first kind whose scan raised.\<close>

fun findings_until_failure :: "(string \<times> (exn + 'a list)) list \<Rightarrow> 'a list" where
  "findings_until_failure [] = []"
| "findings_until_failure ((kind, Inl e) # later) = []"
| "findings_until_failure ((kind, Inr found) # later) = found @ findings_until_failure later"

text \<open>The same two views of the console scanner's block.\<close>

definition region_calls_lines ::
  "provider \<Rightarrow> string \<Rightarrow> string list \<Rightarrow> (exn + (string list \<Rightarrow> string list)) list" where
  "region_calls_lines aws region required_tags =
     [map_sum id (\<lambda>session. id) (Session aws),
      map_sum id (\<lambda>ec2. id) (client aws ''ec2'' (Some region)),
      map_sum id (scan_reservations_lines required_tags) (describe_instances aws region),
      map_sum id (scan_volumes_lines required_tags) (describe_volumes aws region),
      map_sum id (\<lambda>lambda_client. id) (client aws ''lambda'' (Some region)),
      map_sum id (scan_functions_lines aws region required_tags) (list_functions aws region),
      map_sum id (\<lambda>rds. id) (client aws ''rds'' (Some region)),
      map_sum id (scan_db_instances_lines aws region required_tags)
        (describe_db_instances aws region),
      map_sum id (scan_vpcs_lines required_tags) (describe_vpcs aws region),
      map_sum id (scan_security_groups_lines required_tags) (describe_security_groups aws region),
      map_sum id (scan_subnets_lines required_tags) (describe_subnets aws region)]"

definition kind_scans_lines ::
  "provider \<Rightarrow> string \<Rightarrow> string list \<Rightarrow> (string \<times> (exn + string list)) list" where
  "kind_scans_lines aws region required_tags =
     [(''EC2 Instance'',
         (case Session aws of Inl e \<Rightarrow> Inl e | Inr session \<Rightarrow>
         (case client aws ''ec2'' (Some region) of Inl e \<Rightarrow> Inl e | Inr ec2 \<Rightarrow>
            map_sum id (\<lambda>instances. scan_reservations_lines required_tags instances [])
              (describe_instances aws region)))),
      (''EBS Volume'',
         map_sum id (\<lambda>volumes. scan_volumes_lines required_tags volumes [])
           (describe_volumes aws region)),
      (''Lambda Function'',
         (case client aws ''lambda'' (Some region) of Inl e \<Rightarrow> Inl e | Inr lambda_client \<Rightarrow>
            map_sum id (\<lambda>fs. scan_functions_lines aws region required_tags fs [])
              (list_functions aws region))),
      (''RDS Instance'',
         (case client aws ''rds'' (Some region) of Inl e \<Rightarrow> Inl e | Inr rds \<Rightarrow>
            map_sum id (\<lambda>instances. scan_db_instances_lines aws region required_tags instances [])
              (describe_db_instances aws region))),
      (''VPC'',
         map_sum id (\<lambda>vpcs. scan_vpcs_lines required_tags vpcs []) (describe_vpcs aws region)),
      (''Security Group'',
         map_sum id (\<lambda>sgs. scan_security_groups_lines required_tags sgs [])
           (describe_security_groups aws region)),
      (''Subnet'',
         map_sum id (\<lambda>subnets. scan_subnets_lines required_tags subnets [])
           (describe_subnets aws region))]"

section \<open>Example providers\<close>

text \<open>A provider on which every call returns and no resource exists, in one region.\<close>

definition quiet_provider :: provider where
  "quiet_provider =
     \<lparr>Session = Inr (),
      client = (\<lambda>service region_name. Inr ()),
      describe_instances = (\<lambda>region. Inr []),
      describe_volumes = (\<lambda>region. Inr []),
      describe_vpcs = (\<lambda>region. Inr []),
      describe_security_groups = (\<lambda>region. Inr []),
      describe_subnets = (\<lambda>region. Inr []),
      list_functions = (\<lambda>region. Inr []),
      list_tags = (\<lambda>region arn. Inr None),
      describe_db_instances = (\<lambda>region. Inr []),
      list_tags_for_resource = (\<lambda>region arn. Inr None),
      get_caller_identity = Inr ''123456789012'',
      describe_regions = Inr [''us-east-1''],
      list_buckets = Inr [],
      get_bucket_tagging = (\<lambda>name. Inr None)\<rparr>"

text \<open>No session can be made.\<close>

definition provider_without_session :: provider where
  "provider_without_session = quiet_provider\<lparr>Session := Inl (ClientError ''AccessDenied'')\<rparr>"

text \<open>
  One instance and one VPC, both without tags; listing the volumes raises.
\<close>

definition provider_volumes_fail :: provider where
  "provider_volumes_fail = quiet_provider
     \<lparr>describe_instances :=
        (\<lambda>region. Inr [\<lparr>Instances = [\<lparr>InstanceId = ''i-1'', instance_Tags = None\<rparr>]\<rparr>]),
      describe_volumes := (\<lambda>region. Inl (ClientError ''RequestLimitExceeded'')),
      describe_vpcs := (\<lambda>region. Inr [\<lparr>VpcId = ''vpc-1'', vpc_Tags = None\<rparr>])\<rparr>"

text \<open>
  One Lambda function, one RDS instance and one bucket; each of the three tag lookups raises.
\<close>

definition provider_lookups_fail :: provider where
  "provider_lookups_fail = quiet_provider
     \<lparr>list_functions :=
        (\<lambda>region. Inr [\<lparr>FunctionArn = ''arn:aws:lambda:us-east-1:123456789012:function:f'',
                         FunctionName = ''f''\<rparr>]),
      list_tags := (\<lambda>region arn. Inl (ClientError ''AccessDenied'')),
      describe_db_instances :=
        (\<lambda>region. Inr [\<lparr>DBInstanceArn = ''arn:aws:rds:us-east-1:123456789012:db:d'',
                         DBInstanceIdentifier = ''d''\<rparr>]),
      list_tags_for_resource := (\<lambda>region arn. Inl (ClientError ''AccessDenied'')),
      list_buckets := Inr [\<lparr>Name = ''b''\<rparr>],
      get_bucket_tagging := (\<lambda>name. Inl (ClientError ''NoSuchTagSet''))\<rparr>"

text \<open>
  A dataset as the spreadsheet scanner writes it, with two findings of kind VPC and three of
  kind EC2 Instance; the first row is a VPC.
\<close>

definition dataset_3_ec2_2_vpc :: "string list list" where
  "dataset_3_ec2_2_vpc =
     [[''Account'', ''Region'', ''Resource'', ''ARN'', ''Missing_Tags''],
      [''1'', ''us-east-1'', ''VPC'', ''arn:1'', ''Owner''],
      [''1'', ''us-east-1'', ''EC2 Instance'', ''arn:2'', ''Owner''],
      [''1'', ''us-east-1'', ''EC2 Instance'', ''arn:3'', ''Owner, Project''],
      [''1'', ''eu-west-1'', ''VPC'', ''arn:4'', ''Project''],
      [''1'', ''eu-west-1'', ''EC2 Instance'', ''arn:5'', ''Owner'']]"

section \<open>Properties of check_missing_tags\<close>

lemma existing_tags_Key_values:
  assumes "\<forall>tag \<in> set resource_tags. tag ''Key'' \<noteq> None"
  shows "set (map (\<lambda>tag. get_default (tag ''Key'') '''') resource_tags) = Key_values resource_tags"
  using assms
proof (induction resource_tags)
  case Nil
  show ?case by (simp add: Key_values_def)
next
  case (Cons tag tags)
  from Cons.prems obtain k where k: "tag ''Key'' = Some k" by auto
  from Cons have "set (map (\<lambda>tag. get_default (tag ''Key'') '''') tags) = Key_values tags"
    by simp
  then have "insert k (set (map (\<lambda>tag. get_default (tag ''Key'') '''') tags))
      = insert k (Key_values tags)"
    by (rule arg_cong)
  with k show ?case by (simp add: Key_values_def get_default_def)
qed

text \<open>
  Claim C2. For every list of required names and every list of existing tag records, the
  result of \<open>check_missing_tags\<close> is a subsequence of the required list, in the required
  list's order, and its set of names is the set of required names minus the set of keys of
  the existing records. The keys are what the code reads, \<open>tag.get('Key', '')\<close>; when
  every record has a \<open>'Key'\<close> entry they are exactly the values stored under \<open>'Key'\<close>.
\<close>

theorem check_missing_tags_subseq_and_set:
  "subseq (check_missing_tags existing required) required
   \<and> set (check_missing_tags existing required)
       = set required - (\<lambda>tag. get_default (tag ''Key'') '''') ` set existing
   \<and> ((\<forall>tag \<in> set existing. tag ''Key'' \<noteq> None) \<longrightarrow>
        set (check_missing_tags existing required) = set required - Key_values existing)"
proof -
  have a: "subseq (check_missing_tags existing required) required"
    by (simp add: check_missing_tags_def Let_def)
  have b: "set (check_missing_tags existing required)
             = set required - (\<lambda>tag. get_default (tag ''Key'') '''') ` set existing"
    by (auto simp: check_missing_tags_def Let_def)
  have c: "set (check_missing_tags existing required) = set required - Key_values existing"
    if "\<forall>tag \<in> set existing. tag ''Key'' \<noteq> None"
    using b existing_tags_Key_values [OF that] by simp
  from a b c show ?thesis by blast
qed

theorem check_missing_tags_subseq_and_set_witness:
  "subseq (check_missing_tags [[''Key'' \<mapsto> ''Owner'', ''Value'' \<mapsto> ''a'']] [''Environment'', ''Owner''])
     [''Environment'', ''Owner'']
   \<and> check_missing_tags [[''Key'' \<mapsto> ''Owner'', ''Value'' \<mapsto> ''a'']] [''Environment'', ''Owner'']
       = [''Environment'']
   \<and> set [''Environment'', ''Owner''] - Key_values [[''Key'' \<mapsto> ''Owner'', ''Value'' \<mapsto> ''a'']]
       = {''Environment''}"
proof -
  let ?t = "[''Key'' \<mapsto> ''Owner'', ''Value'' \<mapsto> ''a''] :: tag"
  have h: "\<forall>tag \<in> set [?t]. tag ''Key'' \<noteq> None" by simp
  have v: "check_missing_tags [?t] [''Environment'', ''Owner''] = [''Environment'']"
    by (simp add: check_missing_tags_def get_default_def)
  note t = check_missing_tags_subseq_and_set [of "[?t]" "[''Environment'', ''Owner'']"]
  from t have s: "subseq (check_missing_tags [?t] [''Environment'', ''Owner''])
     [''Environment'', ''Owner'']"
    by (rule conjunct1)
  from t h have "set (check_missing_tags [?t] [''Environment'', ''Owner''])
      = set [''Environment'', ''Owner''] - Key_values [?t]"
    by blast
  then have k: "set [''Environment'', ''Owner''] - Key_values [?t] = {''Environment''}"
    unfolding v by simp
  from s v k show ?thesis by (intro conjI)
qed

text \<open>
  Claim C6. With no existing tags, \<open>check_missing_tags\<close> returns the required list itself,
  unchanged. The empty list is also what the callers pass when the resource record has no
  \<open>'Tags'\<close> entry (\<open>resource.get('Tags', [])\<close>).
\<close>

theorem check_missing_tags_empty_identity:
  "check_missing_tags [] required = required
   \<and> check_missing_tags (get_default None []) required = required"
  by (simp add: check_missing_tags_def get_default_def)

section \<open>The loops append to the accumulated list\<close>

lemma scan_instances_append:
  "scan_instances region account_id required_tags xs (acc @ acc')
     = acc @ scan_instances region account_id required_tags xs acc'"
  by (induction xs arbitrary: acc') (simp_all add: Let_def)

lemma scan_reservations_append:
  "scan_reservations region account_id required_tags xs (acc @ acc')
     = acc @ scan_reservations region account_id required_tags xs acc'"
  by (induction xs arbitrary: acc') (simp_all add: scan_instances_append)

lemma scan_volumes_append:
  "scan_volumes region account_id required_tags xs (acc @ acc')
     = acc @ scan_volumes region account_id required_tags xs acc'"
  by (induction xs arbitrary: acc') (simp_all add: Let_def)

lemma scan_vpcs_append:
  "scan_vpcs region account_id required_tags xs (acc @ acc')
     = acc @ scan_vpcs region account_id required_tags xs acc'"
  by (induction xs arbitrary: acc') (simp_all add: Let_def)

lemma scan_security_groups_append:
  "scan_security_groups region account_id required_tags xs (acc @ acc')
     = acc @ scan_security_groups region account_id required_tags xs acc'"
  by (induction xs arbitrary: acc') (simp_all add: Let_def)

lemma scan_subnets_append:
  "scan_subnets region account_id required_tags xs (acc @ acc')
     = acc @ scan_subnets region account_id required_tags xs acc'"
  by (induction xs arbitrary: acc') (simp_all add: Let_def)

lemma scan_functions_append:
  "scan_functions aws region account_id required_tags xs (acc @ acc')
     = acc @ scan_functions aws region account_id required_tags xs acc'"
  by (induction xs arbitrary: acc') (simp_all add: Let_def split: sum.splits)

lemma scan_db_instances_append:
  "scan_db_instances aws region account_id required_tags xs (acc @ acc')
     = acc @ scan_db_instances aws region account_id required_tags xs acc'"
  by (induction xs arbitrary: acc') (simp_all add: Let_def split: sum.splits)

lemma scan_buckets_append:
  "scan_buckets aws account_id required_tags xs (acc @ acc')
     = acc @ scan_buckets aws account_id required_tags xs acc'"
  by (induction xs arbitrary: acc') (simp_all add: Let_def split: sum.splits)

lemmas scan_append =
  scan_reservations_append scan_volumes_append scan_vpcs_append scan_security_groups_append
  scan_subnets_append scan_functions_append scan_db_instances_append

lemma scan_instances_lines_append:
  "scan_instances_lines required_tags xs (acc @ acc')
     = acc @ scan_instances_lines required_tags xs acc'"
  by (induction xs arbitrary: acc') (simp_all add: Let_def)

lemma scan_reservations_lines_append:
  "scan_reservations_lines required_tags xs (acc @ acc')
     = acc @ scan_reservations_lines required_tags xs acc'"
  by (induction xs arbitrary: acc') (simp_all add: scan_instances_lines_append)

lemma scan_volumes_lines_append:
  "scan_volumes_lines required_tags xs (acc @ acc') = acc @ scan_volumes_lines required_tags xs acc'"
  by (induction xs arbitrary: acc') (simp_all add: Let_def)

lemma scan_vpcs_lines_append:
  "scan_vpcs_lines required_tags xs (acc @ acc') = acc @ scan_vpcs_lines required_tags xs acc'"
  by (induction xs arbitrary: acc') (simp_all add: Let_def)

lemma scan_security_groups_lines_append:
  "scan_security_groups_lines required_tags xs (acc @ acc')
     = acc @ scan_security_groups_lines required_tags xs acc'"
  by (induction xs arbitrary: acc') (simp_all add: Let_def)

lemma scan_subnets_lines_append:
  "scan_subnets_lines required_tags xs (acc @ acc') = acc @ scan_subnets_lines required_tags xs acc'"
  by (induction xs arbitrary: acc') (simp_all add: Let_def)

lemma scan_functions_lines_append:
  "scan_functions_lines aws region required_tags xs (acc @ acc')
     = acc @ scan_functions_lines aws region required_tags xs acc'"
  by (induction xs arbitrary: acc') (simp_all add: Let_def split: sum.splits)

lemma scan_db_instances_lines_append:
  "scan_db_instances_lines aws region required_tags xs (acc @ acc')
     = acc @ scan_db_instances_lines aws region required_tags xs acc'"
  by (induction xs arbitrary: acc') (simp_all add: Let_def split: sum.splits)

lemmas scan_lines_append =
  scan_reservations_lines_append scan_volumes_lines_append scan_vpcs_lines_append
  scan_security_groups_lines_append scan_subnets_lines_append scan_functions_lines_append
  scan_db_instances_lines_append

section \<open>The two views agree with the scans\<close>

lemma region_scan_run_calls:
  "get_resources_missing_tags_in_region aws region account_id required_tags
     = run_calls (region_calls aws region account_id required_tags) []"
  unfolding get_resources_missing_tags_in_region_def region_calls_def Let_def
  by (simp split: sum.splits)

lemma region_scan_kind_scans:
  "get_resources_missing_tags_in_region aws region account_id required_tags
     = findings_until_failure (kind_scans aws region account_id required_tags)"
  unfolding get_resources_missing_tags_in_region_def kind_scans_def Let_def
  by (simp split: sum.splits add: scan_append [symmetric])

lemma region_scan_lines_run_calls:
  "get_resources_missing_tags_in_region_lines aws region required_tags
     = (region, run_calls (region_calls_lines aws region required_tags) [])"
  unfolding get_resources_missing_tags_in_region_lines_def region_calls_lines_def Let_def
  by (simp split: sum.splits)

lemma region_scan_lines_kind_scans:
  "get_resources_missing_tags_in_region_lines aws region required_tags
     = (region, findings_until_failure (kind_scans_lines aws region required_tags))"
  unfolding get_resources_missing_tags_in_region_lines_def kind_scans_lines_def Let_def
  by (simp split: sum.splits add: scan_lines_append [symmetric])

lemma run_calls_stops:
  "run_calls (map Inr loops @ Inl e # later) resources
     = foldl (\<lambda>resources loop. loop resources) resources loops"
  by (induction loops arbitrary: resources) simp_all

section \<open>Every loop appends findings of its own kind\<close>

lemma scan_instances_kind:
  "set (scan_instances region account_id required_tags xs acc)
     \<subseteq> set acc \<union> {f. Resource f = ''EC2 Instance''}"
proof (induction xs arbitrary: acc)
  case Nil
  show ?case by simp
next
  case (Cons x xs)
  show ?case
    by (simp add: Let_def)
      (intro conjI impI allI; rule order_trans [OF Cons.IH]; auto simp: Let_def)
qed

lemma scan_reservations_kind:
  "set (scan_reservations region account_id required_tags xs acc)
     \<subseteq> set acc \<union> {f. Resource f = ''EC2 Instance''}"
proof (induction xs arbitrary: acc)
  case Nil
  show ?case by simp
next
  case (Cons x xs)
  have "set (scan_reservations region account_id required_tags (x # xs) acc)
          \<subseteq> set (scan_instances region account_id required_tags (Instances x) acc) \<union> {f. Resource f = ''EC2 Instance''}"
    using Cons.IH by simp
  also have "\<dots> \<subseteq> set acc \<union> {f. Resource f = ''EC2 Instance''}"
    using scan_instances_kind [of _ _ _ "Instances x" acc] by blast
  finally show ?case .
qed

lemma scan_volumes_kind:
  "set (scan_volumes region account_id required_tags xs acc)
     \<subseteq> set acc \<union> {f. Resource f = ''EBS Volume''}"
proof (induction xs arbitrary: acc)
  case Nil
  show ?case by simp
next
  case (Cons x xs)
  show ?case
    by (simp add: Let_def)
      (intro conjI impI allI; rule order_trans [OF Cons.IH]; auto simp: Let_def)
qed

lemma scan_vpcs_kind:
  "set (scan_vpcs region account_id required_tags xs acc)
     \<subseteq> set acc \<union> {f. Resource f = ''VPC''}"
proof (induction xs arbitrary: acc)
  case Nil
  show ?case by simp
next
  case (Cons x xs)
  show ?case
    by (simp add: Let_def)
      (intro conjI impI allI; rule order_trans [OF Cons.IH]; auto simp: Let_def)
qed

lemma scan_security_groups_kind:
  "set (scan_security_groups region account_id required_tags xs acc)
     \<subseteq> set acc \<union> {f. Resource f = ''Security Group''}"
proof (induction xs arbitrary: acc)
  case Nil
  show ?case by simp
next
  case (Cons x xs)
  show ?case
    by (simp add: Let_def)
      (intro conjI impI allI; rule order_trans [OF Cons.IH]; auto simp: Let_def)
qed

lemma scan_subnets_kind:
  "set (scan_subnets region account_id required_tags xs acc)
     \<subseteq> set acc \<union> {f. Resource f = ''Subnet''}"
proof (induction xs arbitrary: acc)
  case Nil
  show ?case by simp
next
  case (Cons x xs)
  show ?case
    by (simp add: Let_def)
      (intro conjI impI allI; rule order_trans [OF Cons.IH]; auto simp: Let_def)
qed

lemma scan_functions_kind:
  "set (scan_functions aws region account_id required_tags xs acc)
     \<subseteq> set acc \<union> {f. Resource f = ''Lambda Function''}"
proof (induction xs arbitrary: acc)
  case Nil
  show ?case by simp
next
  case (Cons x xs)
  show ?case
    by (simp add: Let_def split: sum.splits)
      (intro conjI impI allI; rule order_trans [OF Cons.IH]; auto simp: Let_def)
qed

lemma scan_db_instances_kind:
  "set (scan_db_instances aws region account_id required_tags xs acc)
     \<subseteq> set acc \<union> {f. Resource f = ''RDS Instance''}"
proof (induction xs arbitrary: acc)
  case Nil
  show ?case by simp
next
  case (Cons x xs)
  show ?case
    by (simp add: Let_def split: sum.splits)
      (intro conjI impI allI; rule order_trans [OF Cons.IH]; auto simp: Let_def)
qed

lemma scan_instances_lines_kind:
  "set (scan_instances_lines required_tags xs acc)
     \<subseteq> set acc \<union> {line. prefix ''EC2 Instance: '' line}"
proof (induction xs arbitrary: acc)
  case Nil
  show ?case by simp
next
  case (Cons x xs)
  show ?case
    by (simp add: Let_def)
      (intro conjI impI allI; rule order_trans [OF Cons.IH]; auto simp: report_line_def Let_def)
qed

lemma scan_reservations_lines_kind:
  "set (scan_reservations_lines required_tags xs acc)
     \<subseteq> set acc \<union> {line. prefix ''EC2 Instance: '' line}"
proof (induction xs arbitrary: acc)
  case Nil
  show ?case by simp
next
  case (Cons x xs)
  have "set (scan_reservations_lines required_tags (x # xs) acc)
          \<subseteq> set (scan_instances_lines required_tags (Instances x) acc) \<union> {line. prefix ''EC2 Instance: '' line}"
    using Cons.IH by simp
  also have "\<dots> \<subseteq> set acc \<union> {line. prefix ''EC2 Instance: '' line}"
    using scan_instances_lines_kind [of _ "Instances x" acc] by blast
  finally show ?case .
qed

lemma scan_volumes_lines_kind:
  "set (scan_volumes_lines required_tags xs acc)
     \<subseteq> set acc \<union> {line. prefix ''EBS Volume: '' line}"
proof (induction xs arbitrary: acc)
  case Nil
  show ?case by simp
next
  case (Cons x xs)
  show ?case
    by (simp add: Let_def)
      (intro conjI impI allI; rule order_trans [OF Cons.IH]; auto simp: report_line_def Let_def)
qed

lemma scan_vpcs_lines_kind:
  "set (scan_vpcs_lines required_tags xs acc)
     \<subseteq> set acc \<union> {line. prefix ''VPC: '' line}"
proof (induction xs arbitrary: acc)
  case Nil
  show ?case by simp
next
  case (Cons x xs)
  show ?case
    by (simp add: Let_def)
      (intro conjI impI allI; rule order_trans [OF Cons.IH]; auto simp: report_line_def Let_def)
qed

lemma scan_security_groups_lines_kind:
  "set (scan_security_groups_lines required_tags xs acc)
     \<subseteq> set acc \<union> {line. prefix ''Security Group: '' line}"
proof (induction xs arbitrary: acc)
  case Nil
  show ?case by simp
next
  case (Cons x xs)
  show ?case
    by (simp add: Let_def)
      (intro conjI impI allI; rule order_trans [OF Cons.IH]; auto simp: report_line_def Let_def)
qed

lemma scan_subnets_lines_kind:
  "set (scan_subnets_lines required_tags xs acc)
     \<subseteq> set acc \<union> {line. prefix ''Subnet: '' line}"
proof (induction xs arbitrary: acc)
  case Nil
  show ?case by simp
next
  case (Cons x xs)
  show ?case
    by (simp add: Let_def)
      (intro conjI impI allI; rule order_trans [OF Cons.IH]; auto simp: report_line_def Let_def)
qed

lemma scan_functions_lines_kind:
  "set (scan_functions_lines aws region required_tags xs acc)
     \<subseteq> set acc \<union> {line. prefix ''Lambda Function: '' line}"
proof (induction xs arbitrary: acc)
  case Nil
  show ?case by simp
next
  case (Cons x xs)
  show ?case
    by (simp add: Let_def split: sum.splits)
      (intro conjI impI allI; rule order_trans [OF Cons.IH]; auto simp: report_line_def Let_def)
qed

lemma scan_db_instances_lines_kind:
  "set (scan_db_instances_lines aws region required_tags xs acc)
     \<subseteq> set acc \<union> {line. prefix ''RDS Instance: '' line}"
proof (induction xs arbitrary: acc)
  case Nil
  show ?case by simp
next
  case (Cons x xs)
  show ?case
    by (simp add: Let_def split: sum.splits)
      (intro conjI impI allI; rule order_trans [OF Cons.IH]; auto simp: report_line_def Let_def)
qed

section \<open>Failures in a region scan\<close>

text \<open>
  Claim C4. When the first interaction with the provider for a region fails (making the
  session, making the EC2 client of the region, or the first listing call made on it), the
  region scan returns no findings and does not raise. This holds for the scan of both
  scanner scripts.
\<close>

theorem region_scan_empty_when_first_call_fails:
  assumes "Session aws = Inl e \<or> client aws ''ec2'' (Some region) = Inl e
           \<or> describe_instances aws region = Inl e"
  shows "get_resources_missing_tags_in_region aws region account_id required_tags = []
         \<and> get_resources_missing_tags_in_region_lines aws region required_tags = (region, [])"
proof -
  have a: "get_resources_missing_tags_in_region aws region account_id required_tags = []"
    unfolding region_scan_run_calls region_calls_def using assms
    by (cases "Session aws"; cases "client aws ''ec2'' (Some region)") auto
  have b: "get_resources_missing_tags_in_region_lines aws region required_tags = (region, [])"
    unfolding region_scan_lines_run_calls region_calls_lines_def using assms
    by (cases "Session aws"; cases "client aws ''ec2'' (Some region)") auto
  from a b show ?thesis by (rule conjI)
qed

theorem region_scan_empty_when_first_call_fails_witness:
  "Session provider_without_session = Inl (ClientError ''AccessDenied'')
   \<and> get_resources_missing_tags_in_region provider_without_session ''us-east-1''
         ''123456789012'' [''Owner''] = []
   \<and> get_resources_missing_tags_in_region_lines provider_without_session ''us-east-1''
         [''Owner''] = (''us-east-1'', [])"
proof -
  have s: "Session provider_without_session = Inl (ClientError ''AccessDenied'')"
    by (simp add: provider_without_session_def)
  then have "Session provider_without_session = Inl (ClientError ''AccessDenied'')
      \<or> client provider_without_session ''ec2'' (Some ''us-east-1'') = Inl (ClientError ''AccessDenied'')
      \<or> describe_instances provider_without_session ''us-east-1'' = Inl (ClientError ''AccessDenied'')"
    by (rule disjI1)
  from s region_scan_empty_when_first_call_fails [OF this] show ?thesis by (intro conjI) simp_all
qed

text \<open>
  Claim C9. When a provider call of a region scan raises after findings have been
  accumulated, the scan returns exactly the findings accumulated up to that call, which is
  a non-empty list, and does not raise. The calls before the failing one are
  \<open>map Inr loops\<close>: each returned, and \<open>loops\<close> are the loops that ran on their responses;
  running them in order from the empty list gives the list accumulated at the failure.
\<close>

theorem region_scan_returns_partial_result:
  assumes "region_calls aws region account_id required_tags = map Inr loops @ Inl e # later"
    and "foldl (\<lambda>resources loop. loop resources) [] loops \<noteq> []"
  shows "get_resources_missing_tags_in_region aws region account_id required_tags
           = foldl (\<lambda>resources loop. loop resources) [] loops
         \<and> get_resources_missing_tags_in_region aws region account_id required_tags \<noteq> []"
  using assms by (simp add: region_scan_run_calls run_calls_stops)

theorem region_scan_returns_partial_result_witness:
  "get_resources_missing_tags_in_region provider_volumes_fail ''us-east-1'' ''123456789012''
     [''Owner'']
   = [\<lparr>Account = ''123456789012'', Region = ''us-east-1'', Resource = ''EC2 Instance'',
       ARN = ''arn:aws:ec2:us-east-1:123456789012:instance/i-1'', Missing_Tags = ''Owner''\<rparr>]"
proof -
  let ?calls = "region_calls provider_volumes_fail ''us-east-1'' ''123456789012'' [''Owner'']"
  let ?loops = "[id, id, scan_reservations ''us-east-1'' ''123456789012'' [''Owner'']
      [\<lparr>Instances = [\<lparr>InstanceId = ''i-1'', instance_Tags = None\<rparr>]\<rparr>]]"
  have c: "?calls = map Inr ?loops @ Inl (ClientError ''RequestLimitExceeded'') # drop 4 ?calls"
    by (simp add: region_calls_def provider_volumes_fail_def quiet_provider_def)
  have n: "foldl (\<lambda>resources loop. loop resources) [] ?loops
      = [\<lparr>Account = ''123456789012'', Region = ''us-east-1'', Resource = ''EC2 Instance'',
          ARN = ''arn:aws:ec2:us-east-1:123456789012:instance/i-1'', Missing_Tags = ''Owner''\<rparr>]"
    by (simp add: check_missing_tags_def get_default_def)
  have "foldl (\<lambda>resources loop. loop resources) [] ?loops \<noteq> []"
    unfolding n by simp
  from region_scan_returns_partial_result [OF c this] show ?thesis
    unfolding n by (rule conjunct1)
qed

text \<open>
  Claim C3 says that a failing call for one resource kind leaves the findings of the
  other kinds in the region's result. The scan has one \<open>try\<close> around all the kinds, so it
  does not hold: with an instance and a VPC that both lack the required tag and a volume
  listing that raises, the VPC loop would append a finding, and the scan returns none for
  the VPC.
\<close>

theorem region_scan_kinds_not_isolated:
  "describe_volumes provider_volumes_fail ''us-east-1'' = Inl (ClientError ''RequestLimitExceeded'')
   \<and> describe_vpcs provider_volumes_fail ''us-east-1'' = Inr [\<lparr>VpcId = ''vpc-1'', vpc_Tags = None\<rparr>]
   \<and> scan_vpcs ''us-east-1'' ''123456789012'' [''Owner''] [\<lparr>VpcId = ''vpc-1'', vpc_Tags = None\<rparr>] []
       = [\<lparr>Account = ''123456789012'', Region = ''us-east-1'', Resource = ''VPC'',
           ARN = ''arn:aws:ec2:us-east-1:123456789012:vpc/vpc-1'', Missing_Tags = ''Owner''\<rparr>]
   \<and> \<lparr>Account = ''123456789012'', Region = ''us-east-1'', Resource = ''VPC'',
        ARN = ''arn:aws:ec2:us-east-1:123456789012:vpc/vpc-1'', Missing_Tags = ''Owner''\<rparr>
       \<notin> set (get_resources_missing_tags_in_region provider_volumes_fail ''us-east-1''
                ''123456789012'' [''Owner''])"
proof -
  have a: "describe_volumes provider_volumes_fail ''us-east-1''
      = Inl (ClientError ''RequestLimitExceeded'')"
    by (simp add: provider_volumes_fail_def)
  have b: "describe_vpcs provider_volumes_fail ''us-east-1''
      = Inr [\<lparr>VpcId = ''vpc-1'', vpc_Tags = None\<rparr>]"
    by (simp add: provider_volumes_fail_def)
  have c: "scan_vpcs ''us-east-1'' ''123456789012'' [''Owner''] [\<lparr>VpcId = ''vpc-1'', vpc_Tags = None\<rparr>] []
       = [\<lparr>Account = ''123456789012'', Region = ''us-east-1'', Resource = ''VPC'',
           ARN = ''arn:aws:ec2:us-east-1:123456789012:vpc/vpc-1'', Missing_Tags = ''Owner''\<rparr>]"
    by (simp add: check_missing_tags_def get_default_def)
  have d: "get_resources_missing_tags_in_region provider_volumes_fail ''us-east-1''
      ''123456789012'' [''Owner'']
     = [\<lparr>Account = ''123456789012'', Region = ''us-east-1'', Resource = ''EC2 Instance'',
       ARN = ''arn:aws:ec2:us-east-1:123456789012:instance/i-1'', Missing_Tags = ''Owner''\<rparr>]"
    by (simp add: get_resources_missing_tags_in_region_def provider_volumes_fail_def
        quiet_provider_def check_missing_tags_def get_default_def)
  have e: "\<lparr>Account = ''123456789012'', Region = ''us-east-1'', Resource = ''VPC'',
        ARN = ''arn:aws:ec2:us-east-1:123456789012:vpc/vpc-1'', Missing_Tags = ''Owner''\<rparr>
       \<notin> set (get_resources_missing_tags_in_region provider_volumes_fail ''us-east-1''
                ''123456789012'' [''Owner''])"
    unfolding d by simp
  from a b c e show ?thesis by (intro conjI)
qed

lemma map_sum_eq_Inr: "(map_sum f g r = Inr y) = (\<exists>x. r = Inr x \<and> y = g x)"
  by (cases r) auto

text \<open>
  Claim C3 as amended. A region scan goes through the resource kinds in a fixed order inside
  one \<open>try\<close>. Its result is the findings of the kinds before the first kind whose listing
  (or client) raises, in that order; that kind and all later kinds contribute nothing, and
  the scan does not raise. Every finding a kind contributes carries that kind's name. The
  same holds for the console scanner, with its own order of kinds.
\<close>

theorem region_scan_stops_at_first_failing_kind:
  "get_resources_missing_tags_in_region aws region account_id required_tags
     = findings_until_failure (kind_scans aws region account_id required_tags)
   \<and> (\<forall>(kind, result) \<in> set (kind_scans aws region account_id required_tags).
        \<forall>found. result = Inr found \<longrightarrow> (\<forall>f \<in> set found. Resource f = kind))
   \<and> snd (get_resources_missing_tags_in_region_lines aws region required_tags)
     = findings_until_failure (kind_scans_lines aws region required_tags)
   \<and> (\<forall>(kind, result) \<in> set (kind_scans_lines aws region required_tags).
        \<forall>found. result = Inr found \<longrightarrow> (\<forall>line \<in> set found. prefix (kind @ '': '') line))"
proof -
  note kinds = scan_reservations_kind [of _ _ _ _ "[]"] scan_volumes_kind [of _ _ _ _ "[]"]
    scan_vpcs_kind [of _ _ _ _ "[]"] scan_security_groups_kind [of _ _ _ _ "[]"]
    scan_subnets_kind [of _ _ _ _ "[]"] scan_functions_kind [of _ _ _ _ _ "[]"]
    scan_db_instances_kind [of _ _ _ _ _ "[]"]
  note kinds_lines = scan_reservations_lines_kind [of _ _ "[]"] scan_volumes_lines_kind [of _ _ "[]"]
    scan_vpcs_lines_kind [of _ _ "[]"] scan_security_groups_lines_kind [of _ _ "[]"]
    scan_subnets_lines_kind [of _ _ "[]"] scan_functions_lines_kind [of _ _ _ _ "[]"]
    scan_db_instances_lines_kind [of _ _ _ _ "[]"]
  have b: "\<forall>(kind, result) \<in> set (kind_scans aws region account_id required_tags).
        \<forall>found. result = Inr found \<longrightarrow> (\<forall>f \<in> set found. Resource f = kind)"
    unfolding kind_scans_def
    by (auto split: sum.splits simp: map_sum_eq_Inr dest!: kinds [THEN subsetD])
  have d: "\<forall>(kind, result) \<in> set (kind_scans_lines aws region required_tags).
        \<forall>found. result = Inr found \<longrightarrow> (\<forall>line \<in> set found. prefix (kind @ '': '') line)"
    unfolding kind_scans_lines_def
    by (auto split: sum.splits simp: map_sum_eq_Inr dest!: kinds_lines [THEN subsetD])
  show ?thesis
    using region_scan_kind_scans [of aws region account_id required_tags]
      region_scan_lines_kind_scans [of aws region required_tags] b d
    by simp
qed

theorem region_scan_stops_at_first_failing_kind_witness:
  "get_resources_missing_tags_in_region provider_volumes_fail ''us-east-1'' ''123456789012''
     [''Owner'']
     = [\<lparr>Account = ''123456789012'', Region = ''us-east-1'', Resource = ''EC2 Instance'',
         ARN = ''arn:aws:ec2:us-east-1:123456789012:instance/i-1'', Missing_Tags = ''Owner''\<rparr>]
   \<and> Resource \<lparr>Account = ''123456789012'', Region = ''us-east-1'', Resource = ''EC2 Instance'',
         ARN = ''arn:aws:ec2:us-east-1:123456789012:instance/i-1'', Missing_Tags = ''Owner''\<rparr>
       = ''EC2 Instance''
   \<and> snd (get_resources_missing_tags_in_region_lines provider_volumes_fail ''us-east-1''
          [''Owner''])
     = [''EC2 Instance: i-1 (missing: Owner)'']
   \<and> prefix ''EC2 Instance: '' ''EC2 Instance: i-1 (missing: Owner)''"
proof -
  let ?F = "\<lparr>Account = ''123456789012'', Region = ''us-east-1'', Resource = ''EC2 Instance'',
         ARN = ''arn:aws:ec2:us-east-1:123456789012:instance/i-1'', Missing_Tags = ''Owner''\<rparr>"
  let ?V = "\<lparr>Account = ''123456789012'', Region = ''us-east-1'', Resource = ''VPC'',
         ARN = ''arn:aws:ec2:us-east-1:123456789012:vpc/vpc-1'', Missing_Tags = ''Owner''\<rparr>"
  note t = region_scan_stops_at_first_failing_kind
    [of provider_volumes_fail "''us-east-1''" "''123456789012''" "[''Owner'']"]
  have k: "kind_scans provider_volumes_fail ''us-east-1'' ''123456789012'' [''Owner'']
      = [(''EC2 Instance'', Inr [?F]),
         (''EBS Volume'', Inl (ClientError ''RequestLimitExceeded'')),
         (''VPC'', Inr [?V]), (''Security Group'', Inr []), (''Subnet'', Inr []),
         (''Lambda Function'', Inr []), (''RDS Instance'', Inr [])]"
    by (simp add: kind_scans_def provider_volumes_fail_def quiet_provider_def
        check_missing_tags_def get_default_def)
  have kl: "kind_scans_lines provider_volumes_fail ''us-east-1'' [''Owner'']
      = [(''EC2 Instance'', Inr [''EC2 Instance: i-1 (missing: Owner)'']),
         (''EBS Volume'', Inl (ClientError ''RequestLimitExceeded'')),
         (''Lambda Function'', Inr []), (''RDS Instance'', Inr []),
         (''VPC'', Inr [''VPC: vpc-1 (missing: Owner)'']), (''Security Group'', Inr []),
         (''Subnet'', Inr [])]"
    by (simp add: kind_scans_lines_def provider_volumes_fail_def quiet_provider_def
        check_missing_tags_def get_default_def report_line_def)
  from t have a: "get_resources_missing_tags_in_region provider_volumes_fail ''us-east-1''
      ''123456789012'' [''Owner''] = [?F]"
    unfolding k by simp
  from t have b: "Resource ?F = ''EC2 Instance''"
    unfolding k by simp
  from t have c: "snd (get_resources_missing_tags_in_region_lines provider_volumes_fail
      ''us-east-1'' [''Owner'']) = [''EC2 Instance: i-1 (missing: Owner)'']"
    unfolding kl by simp
  from t have d: "prefix ''EC2 Instance: '' ''EC2 Instance: i-1 (missing: Owner)''"
    unfolding kl by simp
  from a b c d show ?thesis by (intro conjI)
qed

section \<open>Tag lookups that fail\<close>

lemma scan_functions_fail_open:
  assumes "function \<in> set fs"
    and "list_tags aws region (FunctionArn function) = Inl e"
  shows "\<lparr>Account = account_id, Region = region, Resource = ''Lambda Function'',
           ARN = FunctionArn function, Missing_Tags = str_join '', '' required_tags\<rparr>
         \<in> set (scan_functions aws region account_id required_tags fs resources)"
  using assms
proof (induction fs arbitrary: resources)
  case Nil
  then show ?case by simp
next
  case (Cons f fs)
  show ?case
  proof (cases "function = f")
    case True
    let ?F = "\<lparr>Account = account_id, Region = region, Resource = ''Lambda Function'',
           ARN = FunctionArn function, Missing_Tags = str_join '', '' required_tags\<rparr>"
    have "scan_functions aws region account_id required_tags (f # fs) resources
          = scan_functions aws region account_id required_tags fs ((resources @ [?F]) @ [])"
      using True Cons.prems(2) by simp
    also have "\<dots> = (resources @ [?F]) @ scan_functions aws region account_id required_tags fs []"
      by (rule scan_functions_append)
    finally show ?thesis by simp
  next
    case False
    with Cons.prems have "function \<in> set fs" by simp
    from Cons.IH [OF this Cons.prems(2)] show ?thesis by simp
  qed
qed

lemma scan_db_instances_fail_open:
  assumes "instance \<in> set dbs"
    and "list_tags_for_resource aws region (DBInstanceArn instance) = Inl e"
  shows "\<lparr>Account = account_id, Region = region, Resource = ''RDS Instance'',
           ARN = DBInstanceArn instance, Missing_Tags = str_join '', '' required_tags\<rparr>
         \<in> set (scan_db_instances aws region account_id required_tags dbs resources)"
  using assms
proof (induction dbs arbitrary: resources)
  case Nil
  then show ?case by simp
next
  case (Cons d dbs)
  show ?case
  proof (cases "instance = d")
    case True
    let ?F = "\<lparr>Account = account_id, Region = region, Resource = ''RDS Instance'',
           ARN = DBInstanceArn instance, Missing_Tags = str_join '', '' required_tags\<rparr>"
    have "scan_db_instances aws region account_id required_tags (d # dbs) resources
          = scan_db_instances aws region account_id required_tags dbs ((resources @ [?F]) @ [])"
      using True Cons.prems(2) by simp
    also have "\<dots> = (resources @ [?F]) @ scan_db_instances aws region account_id required_tags dbs []"
      by (rule scan_db_instances_append)
    finally show ?thesis by simp
  next
    case False
    with Cons.prems have "instance \<in> set dbs" by simp
    from Cons.IH [OF this Cons.prems(2)] show ?thesis by simp
  qed
qed

lemma scan_buckets_fail_open:
  assumes "bucket \<in> set buckets"
    and "get_bucket_tagging aws (Name bucket) = Inl e"
  shows "\<lparr>Account = account_id, Region = ''Global'', Resource = ''S3 Bucket'',
           ARN = ''arn:aws:s3:::'' @ Name bucket, Missing_Tags = str_join '', '' required_tags\<rparr>
         \<in> set (scan_buckets aws account_id required_tags buckets all_resources)"
  using assms
proof (induction buckets arbitrary: all_resources)
  case Nil
  then show ?case by simp
next
  case (Cons b buckets)
  show ?case
  proof (cases "bucket = b")
    case True
    let ?F = "\<lparr>Account = account_id, Region = ''Global'', Resource = ''S3 Bucket'',
           ARN = ''arn:aws:s3:::'' @ Name bucket, Missing_Tags = str_join '', '' required_tags\<rparr>"
    have "scan_buckets aws account_id required_tags (b # buckets) all_resources
          = scan_buckets aws account_id required_tags buckets ((all_resources @ [?F]) @ [])"
      using True Cons.prems(2) by simp
    also have "\<dots> = (all_resources @ [?F]) @ scan_buckets aws account_id required_tags buckets []"
      by (rule scan_buckets_append)
    finally show ?thesis by simp
  next
    case False
    with Cons.prems have "bucket \<in> set buckets" by simp
    from Cons.IH [OF this Cons.prems(2)] show ?thesis by simp
  qed
qed

lemma scan_db_instances_keeps:
  "set resources \<subseteq> set (scan_db_instances aws region account_id required_tags dbs resources)"
proof -
  have "scan_db_instances aws region account_id required_tags dbs (resources @ [])
      = resources @ scan_db_instances aws region account_id required_tags dbs []"
    by (rule scan_db_instances_append)
  then have "scan_db_instances aws region account_id required_tags dbs resources
      = resources @ scan_db_instances aws region account_id required_tags dbs []"
    by simp
  then show ?thesis by simp
qed

lemma scan_s3_reaches_buckets:
  assumes "client aws ''s3'' None = Inr s3" and "list_buckets aws = Inr buckets"
  shows "scan_s3 aws account_id required_tags all_resources
         = scan_buckets aws account_id required_tags buckets all_resources"
  using assms by (simp add: scan_s3_def)

text \<open>
  Claim C1. For a Lambda function, an RDS instance and an S3 bucket whose tag lookup
  raises, the scanner does not raise: it appends a finding for the resource whose
  \<open>Missing_Tags\<close> is the whole list of required tags (joined with a comma and a space),
  and the finding is in the result of the region scan (for the bucket, in the list \<open>main\<close>
  exports). The premises say that the scan reaches the resource: the calls made before its
  loop returned.
\<close>

theorem tag_lookup_failure_reports_all_required:
  "(Session aws = Inr session \<and> client aws ''ec2'' (Some region) = Inr ec2_client
      \<and> describe_instances aws region = Inr reservations
      \<and> describe_volumes aws region = Inr volumes
      \<and> describe_vpcs aws region = Inr vpcs
      \<and> describe_security_groups aws region = Inr sgs
      \<and> describe_subnets aws region = Inr subnets
      \<and> client aws ''lambda'' (Some region) = Inr lambda_client
      \<and> list_functions aws region = Inr fs
      \<and> fn \<in> set fs
      \<and> list_tags aws region (FunctionArn fn) = Inl e
    \<longrightarrow> \<lparr>Account = account_id, Region = region, Resource = ''Lambda Function'',
          ARN = FunctionArn fn, Missing_Tags = str_join '', '' required_tags\<rparr>
        \<in> set (get_resources_missing_tags_in_region aws region account_id required_tags))
   \<and> (Session aws = Inr session \<and> client aws ''ec2'' (Some region) = Inr ec2_client
      \<and> describe_instances aws region = Inr reservations
      \<and> describe_volumes aws region = Inr volumes
      \<and> describe_vpcs aws region = Inr vpcs
      \<and> describe_security_groups aws region = Inr sgs
      \<and> describe_subnets aws region = Inr subnets
      \<and> client aws ''lambda'' (Some region) = Inr lambda_client
      \<and> list_functions aws region = Inr fs
      \<and> client aws ''rds'' (Some region) = Inr rds
      \<and> describe_db_instances aws region = Inr dbs
      \<and> db \<in> set dbs
      \<and> list_tags_for_resource aws region (DBInstanceArn db) = Inl e'
    \<longrightarrow> \<lparr>Account = account_id, Region = region, Resource = ''RDS Instance'',
          ARN = DBInstanceArn db, Missing_Tags = str_join '', '' required_tags\<rparr>
        \<in> set (get_resources_missing_tags_in_region aws region account_id required_tags))
   \<and> (main_all_resources aws required_tags_txt as_completed = Inr all_resources
      \<and> load_required_tags required_tags_txt = Inr loaded_tags
      \<and> get_caller_identity aws = Inr account
      \<and> client aws ''s3'' None = Inr s3_client
      \<and> list_buckets aws = Inr buckets
      \<and> bucket \<in> set buckets
      \<and> get_bucket_tagging aws (Name bucket) = Inl e''
    \<longrightarrow> \<lparr>Account = account, Region = ''Global'', Resource = ''S3 Bucket'',
          ARN = ''arn:aws:s3:::'' @ Name bucket, Missing_Tags = str_join '', '' loaded_tags\<rparr>
        \<in> set all_resources)"
proof (intro conjI impI)
  assume h: "Session aws = Inr session \<and> client aws ''ec2'' (Some region) = Inr ec2_client
      \<and> describe_instances aws region = Inr reservations
      \<and> describe_volumes aws region = Inr volumes
      \<and> describe_vpcs aws region = Inr vpcs
      \<and> describe_security_groups aws region = Inr sgs
      \<and> describe_subnets aws region = Inr subnets
      \<and> client aws ''lambda'' (Some region) = Inr lambda_client
      \<and> list_functions aws region = Inr fs
      \<and> fn \<in> set fs
      \<and> list_tags aws region (FunctionArn fn) = Inl e"
  let ?F = "\<lparr>Account = account_id, Region = region, Resource = ''Lambda Function'',
          ARN = FunctionArn fn, Missing_Tags = str_join '', '' required_tags\<rparr>"
  from h have "fn \<in> set fs" "list_tags aws region (FunctionArn fn) = Inl e"
    by simp_all
  then have "\<And>resources. ?F
      \<in> set (scan_functions aws region account_id required_tags fs resources)"
    by (rule scan_functions_fail_open)
  with h show "?F \<in> set (get_resources_missing_tags_in_region aws region account_id required_tags)"
    by (auto simp: get_resources_missing_tags_in_region_def Let_def split: sum.splits
        intro!: scan_db_instances_keeps [THEN subsetD])
next
  assume h: "Session aws = Inr session \<and> client aws ''ec2'' (Some region) = Inr ec2_client
      \<and> describe_instances aws region = Inr reservations
      \<and> describe_volumes aws region = Inr volumes
      \<and> describe_vpcs aws region = Inr vpcs
      \<and> describe_security_groups aws region = Inr sgs
      \<and> describe_subnets aws region = Inr subnets
      \<and> client aws ''lambda'' (Some region) = Inr lambda_client
      \<and> list_functions aws region = Inr fs
      \<and> client aws ''rds'' (Some region) = Inr rds
      \<and> describe_db_instances aws region = Inr dbs
      \<and> db \<in> set dbs
      \<and> list_tags_for_resource aws region (DBInstanceArn db) = Inl e'"
  let ?F = "\<lparr>Account = account_id, Region = region, Resource = ''RDS Instance'',
          ARN = DBInstanceArn db, Missing_Tags = str_join '', '' required_tags\<rparr>"
  from h have "db \<in> set dbs"
    "list_tags_for_resource aws region (DBInstanceArn db) = Inl e'"
    by simp_all
  then have "\<And>resources. ?F
      \<in> set (scan_db_instances aws region account_id required_tags dbs resources)"
    by (rule scan_db_instances_fail_open)
  with h show "?F \<in> set (get_resources_missing_tags_in_region aws region account_id required_tags)"
    by (simp add: get_resources_missing_tags_in_region_def Let_def)
next
  assume h: "main_all_resources aws required_tags_txt as_completed = Inr all_resources
      \<and> load_required_tags required_tags_txt = Inr loaded_tags
      \<and> get_caller_identity aws = Inr account
      \<and> client aws ''s3'' None = Inr s3_client
      \<and> list_buckets aws = Inr buckets
      \<and> bucket \<in> set buckets
      \<and> get_bucket_tagging aws (Name bucket) = Inl e''"
  let ?F = "\<lparr>Account = account, Region = ''Global'', Resource = ''S3 Bucket'',
          ARN = ''arn:aws:s3:::'' @ Name bucket, Missing_Tags = str_join '', '' loaded_tags\<rparr>"
  from h have "bucket \<in> set buckets" "get_bucket_tagging aws (Name bucket) = Inl e''"
    by simp_all
  then have "\<And>resources. ?F \<in> set (scan_buckets aws account loaded_tags buckets resources)"
    by (rule scan_buckets_fail_open)
  moreover from h have "\<And>resources. scan_s3 aws account loaded_tags resources
      = scan_buckets aws account loaded_tags buckets resources"
    by (simp add: scan_s3_reaches_buckets)
  ultimately have "\<And>resources. ?F \<in> set (scan_s3 aws account loaded_tags resources)"
    by simp
  with h show "?F \<in> set all_resources"
    by (auto simp: main_all_resources_def Let_def split: sum.splits)
qed

theorem tag_lookup_failure_reports_all_required_witness:
  "\<lparr>Account = ''123456789012'', Region = ''us-east-1'', Resource = ''Lambda Function'',
      ARN = ''arn:aws:lambda:us-east-1:123456789012:function:f'',
      Missing_Tags = ''Environment, Owner, Project''\<rparr>
     \<in> set (get_resources_missing_tags_in_region provider_lookups_fail ''us-east-1''
              ''123456789012'' [''Environment'', ''Owner'', ''Project''])
   \<and> \<lparr>Account = ''123456789012'', Region = ''us-east-1'', Resource = ''RDS Instance'',
      ARN = ''arn:aws:rds:us-east-1:123456789012:db:d'',
      Missing_Tags = ''Environment, Owner, Project''\<rparr>
     \<in> set (get_resources_missing_tags_in_region provider_lookups_fail ''us-east-1''
              ''123456789012'' [''Environment'', ''Owner'', ''Project''])
   \<and> main_all_resources provider_lookups_fail (Inl FileNotFoundError) (\<lambda>regions. regions)
       = Inr [\<lparr>Account = ''123456789012'', Region = ''us-east-1'', Resource = ''Lambda Function'',
                ARN = ''arn:aws:lambda:us-east-1:123456789012:function:f'',
                Missing_Tags = ''Environment, Owner, Project''\<rparr>,
              \<lparr>Account = ''123456789012'', Region = ''us-east-1'', Resource = ''RDS Instance'',
                ARN = ''arn:aws:rds:us-east-1:123456789012:db:d'',
                Missing_Tags = ''Environment, Owner, Project''\<rparr>,
              \<lparr>Account = ''123456789012'', Region = ''Global'', Resource = ''S3 Bucket'',
                ARN = ''arn:aws:s3:::b'', Missing_Tags = ''Environment, Owner, Project''\<rparr>]
   \<and> \<lparr>Account = ''123456789012'', Region = ''Global'', Resource = ''S3 Bucket'',
        ARN = ''arn:aws:s3:::b'', Missing_Tags = ''Environment, Owner, Project''\<rparr>
       \<in> set [\<lparr>Account = ''123456789012'', Region = ''us-east-1'', Resource = ''Lambda Function'',
                ARN = ''arn:aws:lambda:us-east-1:123456789012:function:f'',
                Missing_Tags = ''Environment, Owner, Project''\<rparr>,
              \<lparr>Account = ''123456789012'', Region = ''us-east-1'', Resource = ''RDS Instance'',
                ARN = ''arn:aws:rds:us-east-1:123456789012:db:d'',
                Missing_Tags = ''Environment, Owner, Project''\<rparr>,
              \<lparr>Account = ''123456789012'', Region = ''Global'', Resource = ''S3 Bucket'',
                ARN = ''arn:aws:s3:::b'', Missing_Tags = ''Environment, Owner, Project''\<rparr>]"
proof -
  let ?req = "[''Environment'', ''Owner'', ''Project'']"
  let ?L = "\<lparr>Account = ''123456789012'', Region = ''us-east-1'', Resource = ''Lambda Function'',
      ARN = ''arn:aws:lambda:us-east-1:123456789012:function:f'',
      Missing_Tags = ''Environment, Owner, Project''\<rparr>"
  let ?R = "\<lparr>Account = ''123456789012'', Region = ''us-east-1'', Resource = ''RDS Instance'',
      ARN = ''arn:aws:rds:us-east-1:123456789012:db:d'',
      Missing_Tags = ''Environment, Owner, Project''\<rparr>"
  let ?B = "\<lparr>Account = ''123456789012'', Region = ''Global'', Resource = ''S3 Bucket'',
        ARN = ''arn:aws:s3:::b'', Missing_Tags = ''Environment, Owner, Project''\<rparr>"
  let ?f = "\<lparr>FunctionArn = ''arn:aws:lambda:us-east-1:123456789012:function:f'',
      FunctionName = ''f''\<rparr>"
  let ?d = "\<lparr>DBInstanceArn = ''arn:aws:rds:us-east-1:123456789012:db:d'',
      DBInstanceIdentifier = ''d''\<rparr>"
  have j: "str_join '', '' ?req = ''Environment, Owner, Project''" by simp
  have m: "main_all_resources provider_lookups_fail (Inl FileNotFoundError) (\<lambda>regions. regions)
      = Inr [?L, ?R, ?B]"
    by (simp add: main_all_resources_def load_required_tags_def provider_lookups_fail_def
        quiet_provider_def get_resources_missing_tags_in_region_def scan_s3_def)
  note t = tag_lookup_failure_reports_all_required
    [where aws = provider_lookups_fail and session = "()" and region = "''us-east-1''"
      and ec2_client = "()" and reservations = "[]" and volumes = "[]" and vpcs = "[]" and sgs = "[]"
      and subnets = "[]" and lambda_client = "()" and fs = "[?f]" and fn = ?f
      and e = "ClientError ''AccessDenied''" and account_id = "''123456789012''"
      and required_tags = ?req and rds = "()" and dbs = "[?d]" and db = ?d
      and e' = "ClientError ''AccessDenied''" and required_tags_txt = "Inl FileNotFoundError"
      and as_completed = "\<lambda>regions. regions" and all_resources = "[?L, ?R, ?B]"
      and loaded_tags = ?req and account = "''123456789012''" and s3_client = "()"
      and buckets = "[\<lparr>Name = ''b''\<rparr>]" and bucket = "\<lparr>Name = ''b''\<rparr>"
      and e'' = "ClientError ''NoSuchTagSet''"]
  have a: "?L \<in> set (get_resources_missing_tags_in_region provider_lookups_fail ''us-east-1''
              ''123456789012'' ?req)"
    using t [THEN conjunct1] unfolding j
    by (simp add: provider_lookups_fail_def quiet_provider_def)
  have b: "?R \<in> set (get_resources_missing_tags_in_region provider_lookups_fail ''us-east-1''
              ''123456789012'' ?req)"
    using t [THEN conjunct2, THEN conjunct1] unfolding j
    by (simp add: provider_lookups_fail_def quiet_provider_def)
  have c: "?B \<in> set [?L, ?R, ?B]"
    using t [THEN conjunct2, THEN conjunct2] m unfolding j
    by (simp add: provider_lookups_fail_def quiet_provider_def load_required_tags_def)
  from a b m c show ?thesis by (intro conjI)
qed

text \<open>
  Claim C5 says that every finding has a non-empty list of missing tags, whatever the list
  of required tags. The branches for a failed tag lookup append a finding without the test
  \<open>if missing:\<close> of the other branches. With an empty \<open>required_tags.txt\<close> the list of
  required tags is empty, and each resource whose tag lookup fails gets a finding with an
  empty \<open>Missing_Tags\<close>.
\<close>

theorem empty_required_tags_give_empty_missing_tags:
  "load_required_tags (Inr []) = Inr []
   \<and> main_all_resources provider_lookups_fail (Inr []) (\<lambda>regions. regions)
       = Inr [\<lparr>Account = ''123456789012'', Region = ''us-east-1'', Resource = ''Lambda Function'',
                ARN = ''arn:aws:lambda:us-east-1:123456789012:function:f'', Missing_Tags = ''''\<rparr>,
              \<lparr>Account = ''123456789012'', Region = ''us-east-1'', Resource = ''RDS Instance'',
                ARN = ''arn:aws:rds:us-east-1:123456789012:db:d'', Missing_Tags = ''''\<rparr>,
              \<lparr>Account = ''123456789012'', Region = ''Global'', Resource = ''S3 Bucket'',
                ARN = ''arn:aws:s3:::b'', Missing_Tags = ''''\<rparr>]"
  by (simp add: main_all_resources_def load_required_tags_def provider_lookups_fail_def
      quiet_provider_def get_resources_missing_tags_in_region_def scan_s3_def)

section \<open>Loading the required tags\<close>

lemma strip_blank:
  assumes "\<forall>c \<in> set line. isspace c"
  shows "strip line = []"
proof -
  from assms have "dropWhile isspace line = []" by (simp only: dropWhile_eq_Nil_conv)
  then show ?thesis unfolding strip_def by (simp only: rev.simps dropWhile.simps)
qed

lemma isspace_space: "isspace CHR '' ''"
  by (simp add: isspace_def)

lemma isspace_newline: "isspace (CHR 0x0A)"
  by (simp add: isspace_def)

text \<open>
  Claim C10. \<open>load_required_tags\<close> returns the built-in list of three names when the file
  does not exist, and in no other case falls back to it: another error on opening the file
  is raised, and for a file that exists every name returned is a non-empty stripped line of
  the file. When every line of the file is blank or whitespace only, the result is the empty
  list.
\<close>

theorem load_required_tags_default_only_without_file:
  "load_required_tags (Inl FileNotFoundError) = Inr [''Environment'', ''Owner'', ''Project'']
   \<and> (e \<noteq> FileNotFoundError \<longrightarrow> load_required_tags (Inl e) = Inl e)
   \<and> ((\<forall>line \<in> set f. \<forall>c \<in> set line. isspace c) \<longrightarrow> load_required_tags (Inr f) = Inr [])
   \<and> (\<exists>names. load_required_tags (Inr f) = Inr names
        \<and> (\<forall>name \<in> set names. name \<noteq> [] \<and> name \<in> strip ` set f))"
proof (intro conjI impI)
  show "load_required_tags (Inl FileNotFoundError) = Inr [''Environment'', ''Owner'', ''Project'']"
    by (simp add: load_required_tags_def)
next
  assume "e \<noteq> FileNotFoundError"
  then show "load_required_tags (Inl e) = Inl e"
    by (cases e) (simp_all add: load_required_tags_def)
next
  assume "\<forall>line \<in> set f. \<forall>c \<in> set line. isspace c"
  then have "\<forall>line \<in> set f. strip line = []"
    using strip_blank by blast
  then have "filter (\<lambda>line. strip line \<noteq> []) f = []"
    by (simp add: filter_empty_conv)
  then show "load_required_tags (Inr f) = Inr []"
    by (simp add: load_required_tags_def)
next
  have "load_required_tags (Inr f) = Inr (map strip (filter (\<lambda>line. strip line \<noteq> []) f))"
    by (simp add: load_required_tags_def)
  moreover have "\<forall>name \<in> set (map strip (filter (\<lambda>line. strip line \<noteq> []) f)).
      name \<noteq> [] \<and> name \<in> strip ` set f"
    by auto
  ultimately show "\<exists>names. load_required_tags (Inr f) = Inr names
        \<and> (\<forall>name \<in> set names. name \<noteq> [] \<and> name \<in> strip ` set f)"
    by blast
qed

theorem load_required_tags_default_only_without_file_witness:
  "load_required_tags (Inl (OSError ''Permission denied'')) = Inl (OSError ''Permission denied'')
   \<and> load_required_tags (Inr ['' '', [CHR 0x0A]]) = Inr []"
proof -
  note t = load_required_tags_default_only_without_file
    [of "OSError ''Permission denied''" "['' '', [CHR 0x0A]]"]
  have a: "OSError ''Permission denied'' \<noteq> FileNotFoundError" by simp
  have b: "\<forall>line \<in> set ['' '', [CHR 0x0A]]. \<forall>c \<in> set line. isspace c"
    by (simp add: isspace_space isspace_newline)
  from t a have "load_required_tags (Inl (OSError ''Permission denied''))
      = Inl (OSError ''Permission denied'')"
    by blast
  moreover from t b have "load_required_tags (Inr ['' '', [CHR 0x0A]]) = Inr []"
    by blast
  ultimately show ?thesis by (rule conjI)
qed

section \<open>Counting and ordering in the analysis\<close>

lemma column_total:
  assumes "\<forall>row \<in> set rows. row key \<noteq> None"
  shows "column key rows = Inr (map (\<lambda>row. the (row key)) rows)"
  using assms by (induction rows) auto

lemma counter_add_keys:
  "map fst (counter_add items x)
     = (if x \<in> set (map fst items) then map fst items else map fst items @ [x])"
  by (induction items x rule: counter_add.induct) auto

lemma counter_add_lookup:
  "map_of (counter_add items x)
     = (map_of items)(x \<mapsto> (case map_of items x of None \<Rightarrow> 1 | Some n \<Rightarrow> n + 1))"
  by (induction items x rule: counter_add.induct) (auto simp: fun_eq_iff)

lemma Counter_snoc: "Counter (xs @ [x]) = counter_add (Counter xs) x"
  by (simp add: Counter_def)

lemma Counter_keys_set: "set (map fst (Counter xs)) = set xs"
proof (induction xs rule: rev_induct)
  case Nil
  show ?case by (simp add: Counter_def)
next
  case (snoc x xs)
  then show ?case unfolding Counter_snoc counter_add_keys by auto
qed

lemma Counter_keys_distinct: "distinct (map fst (Counter xs))"
proof (induction xs rule: rev_induct)
  case Nil
  show ?case by (simp add: Counter_def)
next
  case (snoc x xs)
  then show ?case unfolding Counter_snoc counter_add_keys by auto
qed

lemma Counter_lookup:
  "map_of (Counter xs) k = (if k \<in> set xs then Some (count_list xs k) else None)"
proof (induction xs rule: rev_induct)
  case Nil
  show ?case by (simp add: Counter_def)
next
  case (snoc x xs)
  then show ?case unfolding Counter_snoc counter_add_lookup by auto
qed

lemma Counter_counts:
  assumes "(k, n) \<in> set (Counter xs)"
  shows "n = count_list xs k"
proof -
  from assms have "map_of (Counter xs) k = Some n"
    using Counter_keys_distinct [of xs] by simp
  then show ?thesis
    unfolding Counter_lookup by (simp split: if_splits)
qed

lemma first_seen_less: "k \<in> set xs \<Longrightarrow> first_seen xs k < length xs"
  unfolding first_seen_def by (induction xs) auto

lemma first_seen_snoc_old: "k \<in> set xs \<Longrightarrow> first_seen (xs @ [x]) k = first_seen xs k"
  unfolding first_seen_def by (induction xs) auto

lemma first_seen_snoc_new: "x \<notin> set xs \<Longrightarrow> first_seen (xs @ [x]) x = length xs"
  unfolding first_seen_def by (induction xs) auto

lemma Counter_keys_by_first_seen:
  "sorted_wrt (\<lambda>a b. first_seen xs a < first_seen xs b) (map fst (Counter xs))"
proof (induction xs rule: rev_induct)
  case Nil
  show ?case by (simp add: Counter_def)
next
  case (snoc x xs)
  have old: "sorted_wrt (\<lambda>a b. first_seen (xs @ [x]) a < first_seen (xs @ [x]) b)
      (map fst (Counter xs))"
    using snoc.IH
    by (rule sorted_wrt_mono_rel [rotated])
      (simp add: Counter_keys_set [of xs, simplified] first_seen_snoc_old)
  show ?case
  proof (cases "x \<in> set xs")
    case True
    with old show ?thesis
      unfolding Counter_snoc counter_add_keys by (simp add: Counter_keys_set [of xs, simplified])
  next
    case False
    with old show ?thesis
      unfolding Counter_snoc counter_add_keys
      by (simp add: Counter_keys_set [of xs, simplified] sorted_wrt_append
          first_seen_snoc_old first_seen_snoc_new first_seen_less)
  qed
qed

lemma insort_by_count:
  assumes "sorted_wrt (larger_count_first pos) ys"
    and "\<forall>y \<in> set ys. pos (fst x) < pos (fst y)"
  shows "sorted_wrt (larger_count_first pos) (insort_key (\<lambda>item. - int (snd item)) x ys)"
  using assms
proof (induction ys)
  case Nil
  then show ?case by simp
next
  case (Cons y ys)
  show ?case
  proof (cases "snd y \<le> snd x")
    case True
    have "\<forall>z \<in> set ys. snd z \<le> snd y"
      using Cons.prems(1) by (auto simp: larger_count_first_def)
    with True have "\<forall>z \<in> set (y # ys). snd z \<le> snd x" by auto
    then have "\<forall>z \<in> set (y # ys). larger_count_first pos x z"
      using Cons.prems(2) by (auto simp: larger_count_first_def)
    with Cons.prems(1) True show ?thesis by simp
  next
    case False
    have "sorted_wrt (larger_count_first pos) (insort_key (\<lambda>item. - int (snd item)) x ys)"
      using Cons.IH Cons.prems by simp
    moreover from False have "larger_count_first pos y x"
      by (simp add: larger_count_first_def)
    ultimately show ?thesis
      using Cons.prems(1) False by (auto simp: set_insort_key)
  qed
qed

lemma sort_by_count:
  assumes "sorted_wrt (\<lambda>a b. pos (fst a) < pos (fst b)) items"
  shows "sorted_wrt (larger_count_first pos) (most_common items)"
  using assms unfolding most_common_def
proof (induction items)
  case Nil
  show ?case by simp
next
  case (Cons x items)
  have "sorted_wrt (larger_count_first pos) (sort_key (\<lambda>item. - int (snd item)) items)"
    using Cons by simp
  moreover have "\<forall>y \<in> set (sort_key (\<lambda>item. - int (snd item)) items). pos (fst x) < pos (fst y)"
    using Cons.prems by simp
  ultimately show ?case
    by (simp add: insort_by_count)
qed

lemma most_common_set: "set (most_common items) = set items"
  by (simp add: most_common_def)

lemma most_common_keys_distinct:
  "distinct (map fst (most_common items)) = distinct (map fst items)"
  by (simp add: most_common_def distinct_map)

lemma two_counts_order:
  assumes d: "distinct (map fst counts)"
    and s: "set counts = {(a, m), (b, n)}"
    and ab: "a \<noteq> b" and mn: "n < m"
    and o: "sorted_wrt (larger_count_first pos) counts"
  shows "counts = [(a, m), (b, n)]"
proof -
  from d have dc: "distinct counts" by (simp add: distinct_map)
  from s ab have "card (set counts) = 2" by simp
  with dc have "length counts = 2" by (simp add: distinct_card)
  then obtain p q where pq: "counts = [p, q]"
    by (auto simp: length_Suc_conv numeral_2_eq_2)
  with s have "{p, q} = {(a, m), (b, n)}" by simp
  then have "(p = (a, m) \<and> q = (b, n)) \<or> (p = (b, n) \<and> q = (a, m))"
    by (auto simp: doubleton_eq_iff)
  with o pq mn show ?thesis by (auto simp: larger_count_first_def)
qed

lemma two_kinds_table:
  assumes d: "distinct (map fst counts)"
    and k: "set (map fst counts) = set types"
    and n: "\<forall>(k, n) \<in> set counts. n = count_list types k"
    and s: "sorted_wrt (larger_count_first pos) counts"
    and h: "set types = {a, b}" "count_list types a = m" "count_list types b = l"
    and ab: "a \<noteq> b" and lm: "l < m"
  shows "counts = [(a, m), (b, l)]"
proof -
  have sub: "set counts \<subseteq> {(a, m), (b, l)}"
  proof
    fix x assume x: "x \<in> set counts"
    then have "fst x \<in> set types" using k by force
    moreover from x n have "snd x = count_list types (fst x)" by force
    ultimately show "x \<in> {(a, m), (b, l)}"
      using h by (cases x) auto
  qed
  have "a \<in> set (map fst counts)" "b \<in> set (map fst counts)"
    using k h(1) by simp_all
  then obtain x y where xy: "x \<in> set counts" "fst x = a" "y \<in> set counts" "fst y = b"
    by auto
  with sub ab have "x = (a, m)" "y = (b, l)" by auto
  with xy sub have "set counts = {(a, m), (b, l)}" by auto
  with d show ?thesis
    using ab lm s by (rule two_counts_order)
qed

text \<open>
  Claim C8. For a dataset that has data and a \<open>Resource\<close> cell in every row, the analysis
  produces the table of resource kinds; the table has one pair for every kind of the
  dataset with the number of its rows, and the pairs stand in falling order of count, kinds
  of equal count in the order of their first row in the dataset. A dataset with three rows
  of kind EC2 Instance and two of kind VPC, and no other kind, gives
  \<open>EC2 Instance: 3\<close> and then \<open>VPC: 2\<close>.
\<close>

theorem resources_by_type_order:
  assumes "DictReader table \<noteq> []"
    and "\<forall>row \<in> set (DictReader table). row ''Resource'' \<noteq> None"
  shows "\<exists>types counts.
           column ''Resource'' (DictReader table) = Inr types
         \<and> analyze_csv_resource_counts (Inr table) = Inr (Some counts)
         \<and> distinct (map fst counts) \<and> set (map fst counts) = set types
         \<and> (\<forall>(k, n) \<in> set counts. n = count_list types k)
         \<and> sorted_wrt (larger_count_first (first_seen types)) counts
         \<and> (set types = {''EC2 Instance'', ''VPC''} \<and> count_list types ''EC2 Instance'' = 3
              \<and> count_list types ''VPC'' = 2
            \<longrightarrow> counts = [(''EC2 Instance'', 3), (''VPC'', 2)])"
proof -
  define types where "types = map (\<lambda>row. the (row ''Resource'')) (DictReader table)"
  define counts where "counts = most_common (Counter types)"
  have c: "column ''Resource'' (DictReader table) = Inr types"
    unfolding types_def using assms(2) by (rule column_total)
  have a: "analyze_csv_resource_counts (Inr table) = Inr (Some counts)"
    using assms(1) c by (simp add: analyze_csv_resource_counts_def counts_def)
  have d: "distinct (map fst counts)"
    unfolding counts_def by (simp add: most_common_keys_distinct Counter_keys_distinct)
  have k: "set (map fst counts) = set types"
    unfolding counts_def using Counter_keys_set [of types] by (simp add: most_common_set)
  have n: "\<forall>(k, n) \<in> set counts. n = count_list types k"
    unfolding counts_def using Counter_counts [of _ _ types] by (auto simp: most_common_set)
  have "sorted_wrt (\<lambda>a b. first_seen types (fst a) < first_seen types (fst b)) (Counter types)"
    using Counter_keys_by_first_seen [of types] by (simp add: sorted_wrt_map)
  then have s: "sorted_wrt (larger_count_first (first_seen types)) counts"
    unfolding counts_def by (rule sort_by_count)
  have e: "counts = [(''EC2 Instance'', 3), (''VPC'', 2)]"
    if h: "set types = {''EC2 Instance'', ''VPC''} \<and> count_list types ''EC2 Instance'' = 3
              \<and> count_list types ''VPC'' = 2"
  proof -
    have ne: "''EC2 Instance'' \<noteq> ''VPC''" by simp
    have lt: "(2::nat) < 3" by simp
    from h have h1: "set types = {''EC2 Instance'', ''VPC''}"
      and h2: "count_list types ''EC2 Instance'' = 3" and h3: "count_list types ''VPC'' = 2"
      by blast+
    from d k n s h1 h2 h3 ne lt show ?thesis by (rule two_kinds_table)
  qed
  from c a d k n s e show ?thesis by blast
qed

theorem resources_by_type_order_witness:
  "analyze_csv_resource_counts (Inr dataset_3_ec2_2_vpc)
     = Inr (Some [(''EC2 Instance'', 3), (''VPC'', 2)])"
proof -
  let ?types = "[''VPC'', ''EC2 Instance'', ''EC2 Instance'', ''VPC'', ''EC2 Instance'']"
  have r: "DictReader dataset_3_ec2_2_vpc \<noteq> []"
    by (simp add: DictReader_def dataset_3_ec2_2_vpc_def)
  have h: "\<forall>row \<in> set (DictReader dataset_3_ec2_2_vpc). row ''Resource'' \<noteq> None"
    by (simp add: DictReader_def dataset_3_ec2_2_vpc_def)
  have c: "column ''Resource'' (DictReader dataset_3_ec2_2_vpc) = Inr ?types"
    by (simp add: DictReader_def dataset_3_ec2_2_vpc_def)
  have p: "set ?types = {''EC2 Instance'', ''VPC''} \<and> count_list ?types ''EC2 Instance'' = 3
      \<and> count_list ?types ''VPC'' = 2"
    by auto
  from resources_by_type_order [OF r h] obtain types counts where
    t: "column ''Resource'' (DictReader dataset_3_ec2_2_vpc) = Inr types"
       "analyze_csv_resource_counts (Inr dataset_3_ec2_2_vpc) = Inr (Some counts)"
       "set types = {''EC2 Instance'', ''VPC''} \<and> count_list types ''EC2 Instance'' = 3
              \<and> count_list types ''VPC'' = 2
            \<longrightarrow> counts = [(''EC2 Instance'', 3), (''VPC'', 2)]"
    by blast
  from t(1) c have "types = ?types" by simp
  with t(3) p have "counts = [(''EC2 Instance'', 3), (''VPC'', 2)]" by blast
  with t(2) show ?thesis by simp
qed

section \<open>Writing the dataset and reading it back\<close>

lemma DictReader_export:
  "map (\<lambda>row. (row ''Account'', row ''Region'', row ''Resource'', row ''ARN'', row ''Missing_Tags''))
     (DictReader (fieldnames # map writerow all_resources))
   = map (\<lambda>r. (Some (Account r), Some (Region r), Some (Resource r), Some (ARN r),
                Some (Missing_Tags r))) all_resources"
  by (induction all_resources) (simp_all add: DictReader_def fieldnames_def writerow_def)

lemma str_split_from_char:
  "\<not> prefix sep (c # s)
     \<Longrightarrow> str_split_from sep piece (c # s) = str_split_from sep (piece @ [c]) s"
  by simp

lemma split_comma_space_piece:
  assumes "\<not> sublist '', '' m"
  shows "str_split_from '', '' piece (m @ '', '' @ rest)
         = (piece @ m) # str_split_from '', '' [] rest"
  using assms
proof (induction m arbitrary: piece)
  case Nil
  show ?case by simp
next
  case (Cons c cs)
  from Cons.prems have np: "\<not> prefix '', '' (c # cs)" and ns: "\<not> sublist '', '' cs"
    by (simp_all add: sublist_Cons_right)
  from np have "\<not> prefix '', '' (c # cs @ '', '' @ rest)"
    by (cases cs) auto
  then have "str_split_from '', '' piece (c # cs @ '', '' @ rest)
      = str_split_from '', '' (piece @ [c]) (cs @ '', '' @ rest)"
    by (rule str_split_from_char)
  then have "str_split_from '', '' piece ((c # cs) @ '', '' @ rest)
      = str_split_from '', '' (piece @ [c]) (cs @ '', '' @ rest)"
    by (simp only: append_Cons)
  also have "\<dots> = ((piece @ [c]) @ cs) # str_split_from '', '' [] rest"
    using ns by (rule Cons.IH)
  finally show ?case by simp
qed

lemma split_comma_space_last:
  assumes "\<not> sublist '', '' m"
  shows "str_split_from '', '' piece m = [piece @ m]"
  using assms
proof (induction m arbitrary: piece)
  case Nil
  show ?case by simp
next
  case (Cons c cs)
  from Cons.prems have np: "\<not> prefix '', '' (c # cs)" and ns: "\<not> sublist '', '' cs"
    by (simp_all add: sublist_Cons_right)
  from np have "str_split_from '', '' piece (c # cs) = str_split_from '', '' (piece @ [c]) cs"
    by (rule str_split_from_char)
  also have "\<dots> = [(piece @ [c]) @ cs]"
    using ns by (rule Cons.IH)
  finally show ?case by simp
qed

lemma split_comma_space_join:
  assumes "ms \<noteq> []" and "\<forall>m \<in> set ms. \<not> sublist '', '' m"
  shows "str_split_from '', '' [] (str_join '', '' ms) = ms"
  using assms
proof (induction "'', ''" ms rule: str_join.induct)
  case 1
  then show ?case by simp
next
  case (2 x)
  then show ?case by (simp add: split_comma_space_last)
next
  case (3 x y ys)
  from 3 have "str_split_from '', '' [] (str_join '', '' (y # ys)) = y # ys" by simp
  moreover from 3 have "\<not> sublist '', '' x" by simp
  ultimately show ?case
    using split_comma_space_piece [of x "[]" "str_join '', '' (y # ys)"] by simp
qed

lemma split_comma_piece:
  assumes "CHR '','' \<notin> set m"
  shows "str_split_from '','' piece (m @ '','' @ rest) = (piece @ m) # str_split_from '','' [] rest"
  using assms
proof (induction m arbitrary: piece)
  case Nil
  show ?case by simp
next
  case (Cons c cs)
  from Cons.prems have "\<not> prefix '','' (c # cs @ '','' @ rest)" by auto
  then have "str_split_from '','' piece (c # cs @ '','' @ rest)
      = str_split_from '','' (piece @ [c]) (cs @ '','' @ rest)"
    by (rule str_split_from_char)
  also have "\<dots> = ((piece @ [c]) @ cs) # str_split_from '','' [] rest"
    using Cons.prems by (intro Cons.IH) simp
  finally show ?case by simp
qed

lemma split_comma_last:
  assumes "CHR '','' \<notin> set m"
  shows "str_split_from '','' piece m = [piece @ m]"
  using assms
proof (induction m arbitrary: piece)
  case Nil
  show ?case by simp
next
  case (Cons c cs)
  from Cons.prems have "\<not> prefix '','' (c # cs)" by auto
  then have "str_split_from '','' piece (c # cs) = str_split_from '','' (piece @ [c]) cs"
    by (rule str_split_from_char)
  also have "\<dots> = [(piece @ [c]) @ cs]"
    using Cons.prems by (intro Cons.IH) simp
  finally show ?case by simp
qed

lemma strip_leading_space: "strip (CHR '' '' # m) = strip m"
  by (simp add: strip_def isspace_space)

lemma parse_join:
  assumes "ms \<noteq> []" and "\<forall>m \<in> set ms. CHR '','' \<notin> set m \<and> strip m = m"
  shows "map strip (str_split_from '','' piece (str_join '', '' ms))
         = strip (piece @ hd ms) # tl ms"
  using assms
proof (induction "'', ''" ms arbitrary: piece rule: str_join.induct)
  case 1
  then show ?case by simp
next
  case (2 x)
  then show ?case by (simp add: split_comma_last)
next
  case (3 x y ys)
  have j: "str_join '', '' (x # y # ys) = x @ '','' @ (CHR '' '' # str_join '', '' (y # ys))"
    by simp
  from 3 have x: "CHR '','' \<notin> set x" by simp
  have "\<not> prefix '','' (CHR '' '' # str_join '', '' (y # ys))" by simp
  then have "str_split_from '','' [] (CHR '' '' # str_join '', '' (y # ys))
      = str_split_from '','' ([] @ '' '') (str_join '', '' (y # ys))"
    by (rule str_split_from_char)
  moreover from 3 have "map strip (str_split_from '','' ([] @ '' '') (str_join '', '' (y # ys)))
      = strip (([] @ '' '') @ hd (y # ys)) # tl (y # ys)"
    by (intro "3.hyps") simp_all
  moreover from 3 have "strip y = y" by simp
  ultimately have "map strip (str_split_from '','' [] (CHR '' '' # str_join '', '' (y # ys)))
      = y # ys"
    by (simp add: strip_leading_space)
  then show ?case
    unfolding j split_comma_piece [OF x] by simp
qed

text \<open>
  Claim C7 says that splitting a \<open>Missing_Tags\<close> cell on a comma and a space gives back the
  list of tag names of the finding, for every collection of findings. A tag name that
  contains a comma and a space is split in two: with the single required name
  \<open>Owner, Team\<close> (one line of \<open>required_tags.txt\<close>), an instance without tags gets the
  cell \<open>Owner, Team\<close>, which is read back as two names, both by the split of the
  specification and by the parse of the analysis script.
\<close>

theorem tag_name_with_separator_is_split:
  "check_missing_tags [] [''Owner, Team''] = [''Owner, Team'']
   \<and> scan_instances ''us-east-1'' ''123456789012'' [''Owner, Team'']
         [\<lparr>InstanceId = ''i-1'', instance_Tags = None\<rparr>] []
       = [\<lparr>Account = ''123456789012'', Region = ''us-east-1'', Resource = ''EC2 Instance'',
           ARN = ''arn:aws:ec2:us-east-1:123456789012:instance/i-1'',
           Missing_Tags = ''Owner, Team''\<rparr>]
   \<and> spec_split_missing_tags ''Owner, Team'' = [''Owner'', ''Team'']
   \<and> parse_missing_tags ''Owner, Team'' = [''Owner'', ''Team'']
   \<and> [''Owner'', ''Team''] \<noteq> [''Owner, Team'']"
  by (simp add: check_missing_tags_def get_default_def spec_split_missing_tags_def
      parse_missing_tags_def str_split_def strip_def isspace_def)

text \<open>
  Claim C7 as amended. For every non-empty collection of findings, the exported dataset read
  back by the analysis script has the rows of the collection, in order, with the same
  \<open>Account\<close>, \<open>Region\<close>, \<open>Resource\<close>, \<open>ARN\<close> and \<open>Missing_Tags\<close>. Splitting a
  \<open>Missing_Tags\<close> cell on a comma and a space gives back the list of tag names that was
  joined into it when that list is not empty and no tag name contains a comma followed by a
  space. The parse of the analysis script (split on a comma, then strip) gives it back when
  the list is not empty and no tag name contains a comma or has leading or trailing
  whitespace.
\<close>

theorem dataset_round_trip:
  "(all_resources \<noteq> [] \<longrightarrow>
      (\<exists>table. export_csv all_resources = Some table
         \<and> map (\<lambda>row. (row ''Account'', row ''Region'', row ''Resource'', row ''ARN'',
                        row ''Missing_Tags'')) (DictReader table)
           = map (\<lambda>r. (Some (Account r), Some (Region r), Some (Resource r), Some (ARN r),
                        Some (Missing_Tags r))) all_resources))
   \<and> (missing \<noteq> [] \<and> (\<forall>tag \<in> set missing. \<not> sublist '', '' tag)
        \<longrightarrow> spec_split_missing_tags (str_join '', '' missing) = missing)
   \<and> (missing \<noteq> [] \<and> (\<forall>tag \<in> set missing. CHR '','' \<notin> set tag \<and> strip tag = tag)
        \<longrightarrow> parse_missing_tags (str_join '', '' missing) = missing)"
proof (intro conjI impI)
  assume "all_resources \<noteq> []"
  then have "export_csv all_resources = Some (fieldnames # map writerow all_resources)"
    by (simp add: export_csv_def)
  with DictReader_export [of all_resources]
  show "\<exists>table. export_csv all_resources = Some table
         \<and> map (\<lambda>row. (row ''Account'', row ''Region'', row ''Resource'', row ''ARN'',
                        row ''Missing_Tags'')) (DictReader table)
           = map (\<lambda>r. (Some (Account r), Some (Region r), Some (Resource r), Some (ARN r),
                        Some (Missing_Tags r))) all_resources"
    by blast
next
  assume "missing \<noteq> [] \<and> (\<forall>tag \<in> set missing. \<not> sublist '', '' tag)"
  then show "spec_split_missing_tags (str_join '', '' missing) = missing"
    by (simp add: spec_split_missing_tags_def str_split_def split_comma_space_join)
next
  assume h: "missing \<noteq> [] \<and> (\<forall>tag \<in> set missing. CHR '','' \<notin> set tag \<and> strip tag = tag)"
  then have "map strip (str_split_from '','' [] (str_join '', '' missing))
      = strip ([] @ hd missing) # tl missing"
    by (intro parse_join) simp_all
  moreover from h have "strip (hd missing) = hd missing" by (cases missing) simp_all
  ultimately show "parse_missing_tags (str_join '', '' missing) = missing"
    using h by (simp add: parse_missing_tags_def str_split_def)
qed

theorem dataset_round_trip_witness:
  "(\<exists>table. export_csv [\<lparr>Account = ''123456789012'', Region = ''us-east-1'',
                 Resource = ''EC2 Instance'', ARN = ''arn:aws:ec2:us-east-1:123456789012:instance/i-1'',
                 Missing_Tags = ''Owner, Project''\<rparr>] = Some table
         \<and> map (\<lambda>row. (row ''Account'', row ''Region'', row ''Resource'', row ''ARN'',
                        row ''Missing_Tags'')) (DictReader table)
           = [(Some ''123456789012'', Some ''us-east-1'', Some ''EC2 Instance'',
               Some ''arn:aws:ec2:us-east-1:123456789012:instance/i-1'', Some ''Owner, Project'')])
   \<and> spec_split_missing_tags ''Owner, Project'' = [''Owner'', ''Project'']
   \<and> parse_missing_tags ''Owner, Project'' = [''Owner'', ''Project'']"
proof -
  let ?F = "\<lparr>Account = ''123456789012'', Region = ''us-east-1'',
                 Resource = ''EC2 Instance'', ARN = ''arn:aws:ec2:us-east-1:123456789012:instance/i-1'',
                 Missing_Tags = ''Owner, Project''\<rparr>"
  note t = dataset_round_trip [of "[?F]" "[''Owner'', ''Project'']"]
  have j: "str_join '', '' [''Owner'', ''Project''] = ''Owner, Project''" by simp
  have n: "[?F] \<noteq> []" by simp
  have h1: "[''Owner'', ''Project''] \<noteq> []
      \<and> (\<forall>tag \<in> set [''Owner'', ''Project'']. \<not> sublist '', '' tag)"
    by (simp add: sublist_Cons_right)
  have h2: "[''Owner'', ''Project''] \<noteq> []
      \<and> (\<forall>tag \<in> set [''Owner'', ''Project'']. CHR '','' \<notin> set tag \<and> strip tag = tag)"
    by (simp add: strip_def isspace_def)
  from t n have a: "\<exists>table. export_csv [?F] = Some table
         \<and> map (\<lambda>row. (row ''Account'', row ''Region'', row ''Resource'', row ''ARN'',
                        row ''Missing_Tags'')) (DictReader table)
           = [(Some ''123456789012'', Some ''us-east-1'', Some ''EC2 Instance'',
               Some ''arn:aws:ec2:us-east-1:123456789012:instance/i-1'', Some ''Owner, Project'')]"
    by simp
  from t h1 have b: "spec_split_missing_tags ''Owner, Project'' = [''Owner'', ''Project'']"
    unfolding j by blast
  from t h2 have c: "parse_missing_tags ''Owner, Project'' = [''Owner'', ''Project'']"
    unfolding j by blast
  from a b c show ?thesis by (intro conjI)
qed

section \<open>Findings of a run with required tags\<close>

text \<open>
  With a list of required tags that is not empty, every finding of a run has a
  \<open>Missing_Tags\<close> cell that is not empty (\<open>load_required_tags\<close> returns no empty
  name): a finding with an empty cell arises from an empty list of required tags only.
\<close>

lemma str_join_nonempty:
  assumes "ms \<noteq> []" and "[] \<notin> set ms"
  shows "str_join sep ms \<noteq> []"
  using assms by (induction sep ms rule: str_join.induct) simp_all

lemma check_missing_tags_names: "set (check_missing_tags tags required) \<subseteq> set required"
  by (auto simp: check_missing_tags_def Let_def)

lemma missing_cell_nonempty:
  assumes "[] \<notin> set required" and "check_missing_tags tags required \<noteq> []"
  shows "str_join sep (check_missing_tags tags required) \<noteq> []"
proof -
  from assms(1) check_missing_tags_names [of tags required]
  have "[] \<notin> set (check_missing_tags tags required)" by blast
  with assms(2) show ?thesis by (rule str_join_nonempty)
qed

lemma required_cell_nonempty:
  assumes "[] \<notin> set required" and "required \<noteq> []"
  shows "str_join sep required \<noteq> []"
  using assms(2) assms(1) by (rule str_join_nonempty)

lemma scan_instances_cells:
  assumes "[] \<notin> set required_tags" and "required_tags \<noteq> []"
  shows "set (scan_instances region account_id required_tags xs acc)
     \<subseteq> set acc \<union> {f. Missing_Tags f \<noteq> []}"
proof (induction xs arbitrary: acc)
  case Nil
  show ?case by simp
next
  case (Cons x xs)
  note c = missing_cell_nonempty [OF assms(1)] required_cell_nonempty [OF assms]
  show ?case
    by (simp add: Let_def)
      (intro conjI impI allI; rule order_trans [OF Cons.IH]; auto simp: Let_def c)
qed

lemma scan_reservations_cells:
  assumes "[] \<notin> set required_tags" and "required_tags \<noteq> []"
  shows "set (scan_reservations region account_id required_tags xs acc)
     \<subseteq> set acc \<union> {f. Missing_Tags f \<noteq> []}"
proof (induction xs arbitrary: acc)
  case Nil
  show ?case by simp
next
  case (Cons x xs)
  have "set (scan_reservations region account_id required_tags (x # xs) acc)
          \<subseteq> set (scan_instances region account_id required_tags (Instances x) acc) \<union> {f. Missing_Tags f \<noteq> []}"
    using Cons.IH by simp
  also have "\<dots> \<subseteq> set acc \<union> {f. Missing_Tags f \<noteq> []}"
    using scan_instances_cells [OF assms, of _ _ "Instances x" acc] by blast
  finally show ?case .
qed

lemma scan_volumes_cells:
  assumes "[] \<notin> set required_tags" and "required_tags \<noteq> []"
  shows "set (scan_volumes region account_id required_tags xs acc)
     \<subseteq> set acc \<union> {f. Missing_Tags f \<noteq> []}"
proof (induction xs arbitrary: acc)
  case Nil
  show ?case by simp
next
  case (Cons x xs)
  note c = missing_cell_nonempty [OF assms(1)] required_cell_nonempty [OF assms]
  show ?case
    by (simp add: Let_def)
      (intro conjI impI allI; rule order_trans [OF Cons.IH]; auto simp: Let_def c)
qed

lemma scan_vpcs_cells:
  assumes "[] \<notin> set required_tags" and "required_tags \<noteq> []"
  shows "set (scan_vpcs region account_id required_tags xs acc)
     \<subseteq> set acc \<union> {f. Missing_Tags f \<noteq> []}"
proof (induction xs arbitrary: acc)
  case Nil
  show ?case by simp
next
  case (Cons x xs)
  note c = missing_cell_nonempty [OF assms(1)] required_cell_nonempty [OF assms]
  show ?case
    by (simp add: Let_def)
      (intro conjI impI allI; rule order_trans [OF Cons.IH]; auto simp: Let_def c)
qed

lemma scan_security_groups_cells:
  assumes "[] \<notin> set required_tags" and "required_tags \<noteq> []"
  shows "set (scan_security_groups region account_id required_tags xs acc)
     \<subseteq> set acc \<union> {f. Missing_Tags f \<noteq> []}"
proof (induction xs arbitrary: acc)
  case Nil
  show ?case by simp
next
  case (Cons x xs)
  note c = missing_cell_nonempty [OF assms(1)] required_cell_nonempty [OF assms]
  show ?case
    by (simp add: Let_def)
      (intro conjI impI allI; rule order_trans [OF Cons.IH]; auto simp: Let_def c)
qed

lemma scan_subnets_cells:
  assumes "[] \<notin> set required_tags" and "required_tags \<noteq> []"
  shows "set (scan_subnets region account_id required_tags xs acc)
     \<subseteq> set acc \<union> {f. Missing_Tags f \<noteq> []}"
proof (induction xs arbitrary: acc)
  case Nil
  show ?case by simp
next
  case (Cons x xs)
  note c = missing_cell_nonempty [OF assms(1)] required_cell_nonempty [OF assms]
  show ?case
    by (simp add: Let_def)
      (intro conjI impI allI; rule order_trans [OF Cons.IH]; auto simp: Let_def c)
qed

lemma scan_functions_cells:
  assumes "[] \<notin> set required_tags" and "required_tags \<noteq> []"
  shows "set (scan_functions aws region account_id required_tags xs acc)
     \<subseteq> set acc \<union> {f. Missing_Tags f \<noteq> []}"
proof (induction xs arbitrary: acc)
  case Nil
  show ?case by simp
next
  case (Cons x xs)
  note c = missing_cell_nonempty [OF assms(1)] required_cell_nonempty [OF assms]
  show ?case
    by (simp add: Let_def split: sum.splits)
      (intro conjI impI allI; rule order_trans [OF Cons.IH]; auto simp: Let_def c)
qed

lemma scan_db_instances_cells:
  assumes "[] \<notin> set required_tags" and "required_tags \<noteq> []"
  shows "set (scan_db_instances aws region account_id required_tags xs acc)
     \<subseteq> set acc \<union> {f. Missing_Tags f \<noteq> []}"
proof (induction xs arbitrary: acc)
  case Nil
  show ?case by simp
next
  case (Cons x xs)
  note c = missing_cell_nonempty [OF assms(1)] required_cell_nonempty [OF assms]
  show ?case
    by (simp add: Let_def split: sum.splits)
      (intro conjI impI allI; rule order_trans [OF Cons.IH]; auto simp: Let_def c)
qed

lemma scan_buckets_cells:
  assumes "[] \<notin> set required_tags" and "required_tags \<noteq> []"
  shows "set (scan_buckets aws account_id required_tags xs acc)
     \<subseteq> set acc \<union> {f. Missing_Tags f \<noteq> []}"
proof (induction xs arbitrary: acc)
  case Nil
  show ?case by simp
next
  case (Cons x xs)
  note c = missing_cell_nonempty [OF assms(1)] required_cell_nonempty [OF assms]
  show ?case
    by (simp add: Let_def split: sum.splits)
      (intro conjI impI allI; rule order_trans [OF Cons.IH]; auto simp: Let_def c)
qed

lemma run_calls_invariant:
  assumes "\<forall>c \<in> set calls. \<forall>loop. c = Inr loop \<longrightarrow> (\<forall>acc. set acc \<subseteq> S \<longrightarrow> set (loop acc) \<subseteq> S)"
    and "set acc \<subseteq> S"
  shows "set (run_calls calls acc) \<subseteq> S"
  using assms by (induction calls acc rule: run_calls.induct) simp_all

lemma region_scan_cells:
  assumes "[] \<notin> set required_tags" and "required_tags \<noteq> []"
  shows "set (get_resources_missing_tags_in_region aws region account_id required_tags)
         \<subseteq> {f. Missing_Tags f \<noteq> []}"
  unfolding region_scan_run_calls
proof (rule run_calls_invariant)
  note cells = scan_reservations_cells [OF assms] scan_volumes_cells [OF assms]
    scan_vpcs_cells [OF assms] scan_security_groups_cells [OF assms]
    scan_subnets_cells [OF assms] scan_functions_cells [OF assms]
    scan_db_instances_cells [OF assms]
  show "\<forall>c \<in> set (region_calls aws region account_id required_tags). \<forall>loop. c = Inr loop
      \<longrightarrow> (\<forall>acc. set acc \<subseteq> {f. Missing_Tags f \<noteq> []}
            \<longrightarrow> set (loop acc) \<subseteq> {f. Missing_Tags f \<noteq> []})"
    by (auto simp: region_calls_def map_sum_eq_Inr dest!: cells [THEN subsetD])
  show "set [] \<subseteq> {f. Missing_Tags f \<noteq> []}" by simp
qed

lemma region_scans_cells:
  assumes "[] \<notin> set required_tags" and "required_tags \<noteq> []"
    and "set acc \<subseteq> {f. Missing_Tags f \<noteq> []}"
  shows "set (foldl (\<lambda>all_resources region. all_resources
                     @ get_resources_missing_tags_in_region aws region account_id required_tags)
              acc regions) \<subseteq> {f. Missing_Tags f \<noteq> []}"
  using assms(3)
proof (induction regions arbitrary: acc)
  case Nil
  then show ?case by simp
next
  case (Cons r regions)
  show ?case
    using Cons.prems region_scan_cells [OF assms(1,2), of aws r account_id]
    by (simp del: set_append) (rule Cons.IH, simp)
qed

lemma load_required_tags_names:
  assumes "load_required_tags required_tags_txt = Inr required_tags"
  shows "[] \<notin> set required_tags"
proof (cases required_tags_txt)
  case (Inl e)
  with assms show ?thesis
    by (cases e) (auto simp: load_required_tags_def)
next
  case (Inr f)
  with assms show ?thesis
    by (auto simp: load_required_tags_def)
qed

lemma findings_have_missing_tags:
  assumes "main_all_resources aws required_tags_txt as_completed = Inr all_resources"
    and "load_required_tags required_tags_txt = Inr required_tags"
    and "required_tags \<noteq> []"
  shows "\<forall>f \<in> set all_resources. Missing_Tags f \<noteq> []"
proof -
  note names = load_required_tags_names [OF assms(2)]
  have regions: "set (foldl (\<lambda>all_resources region. all_resources
                     @ get_resources_missing_tags_in_region aws region account_id required_tags)
              [] regions) \<subseteq> {f. Missing_Tags f \<noteq> []}" for account_id regions
    by (rule region_scans_cells [OF names assms(3)]) simp
  have s3: "set (scan_s3 aws account_id required_tags acc) \<subseteq> {f. Missing_Tags f \<noteq> []}"
    if "set acc \<subseteq> {f. Missing_Tags f \<noteq> []}" for account_id acc
    using that scan_buckets_cells [OF names assms(3), of aws account_id _ acc]
    by (auto simp: scan_s3_def split: sum.splits)
  from assms(1,2) obtain account_id regions where
    "all_resources = scan_s3 aws account_id required_tags
       (foldl (\<lambda>all_resources region. all_resources
                     @ get_resources_missing_tags_in_region aws region account_id required_tags)
              [] regions)"
    by (auto simp: main_all_resources_def Let_def split: sum.splits)
  with s3 [OF regions] show ?thesis by blast
qed

end
